theory Spec2Isabelle
  imports Complex_Main
begin

section \<open>Python values and exceptions\<close>

text \<open>
  The agent handles JSON documents produced by the planner model and payloads returned by
  tool handlers. They are Python values built from \<open>None\<close>, booleans, numbers, strings,
  lists and string-keyed dicts. A dict is an association list in insertion order without
  duplicate keys; \<open>json.loads\<close> never produces a duplicate key. Integers are unbounded.
  A float is modelled by the real number it denotes: the values \<open>nan\<close> and \<open>inf\<close> are not
  represented. The conversion of an integer to a float rounds and can overflow
  (\<open>float_of_int\<close> below).
\<close>

datatype json =
    JNull
  | JBool bool
  | JInt int
  | JFloat real
  | JStr string
  | JArr "json list"
  | JObj "(string \<times> json) list"

text \<open>Every exception class the modelled code can raise or let through.\<close>

datatype pyerror =
    TypeError
  | AttributeError
  | KeyError
  | ValueError
  | OverflowError
  | AssertionError
  | APIConnectionError
  | RateLimitError
  | APIStatusError
  | CircuitBreaker
  | OtherException

section \<open>Python helpers\<close>

text \<open>Truth value testing (\<open>bool(x)\<close>, \<open>x or y\<close>, \<open>if x\<close>) and hashability: lists and dicts
  cannot be members of a set, and a membership test on them raises \<open>TypeError\<close>.\<close>

fun truthy :: "json \<Rightarrow> bool" where
  "truthy JNull = False"
| "truthy (JBool b) = b"
| "truthy (JInt i) = (i \<noteq> 0)"
| "truthy (JFloat r) = (r \<noteq> 0)"
| "truthy (JStr s) = (s \<noteq> [])"
| "truthy (JArr xs) = (xs \<noteq> [])"
| "truthy (JObj d) = (d \<noteq> [])"

fun hashable :: "json \<Rightarrow> bool" where
  "hashable (JArr xs) = False"
| "hashable (JObj d) = False"
| "hashable j = True"

type_synonym pydict = "(string \<times> json) list"

text \<open>\<open>d.get(k, dflt)\<close>, \<open>d.setdefault(k, v)\<close>, \<open>d[k] = v\<close> and \<open>k in d\<close> on a dict.\<close>

definition dict_get :: "pydict \<Rightarrow> string \<Rightarrow> json \<Rightarrow> json" where
  "dict_get d k dflt = (case map_of d k of None \<Rightarrow> dflt | Some v \<Rightarrow> v)"

definition setdefault :: "pydict \<Rightarrow> string \<Rightarrow> json \<Rightarrow> pydict" where
  "setdefault d k v = (case map_of d k of None \<Rightarrow> d @ [(k, v)] | Some u \<Rightarrow> d)"

fun dict_set :: "pydict \<Rightarrow> string \<Rightarrow> json \<Rightarrow> pydict" where
  "dict_set [] k v = [(k, v)]"
| "dict_set ((k', v') # d) k v =
     (if k' = k then (k, v) # d else (k', v') # dict_set d k v)"

definition has_key :: "pydict \<Rightarrow> string \<Rightarrow> bool" where
  "has_key d k = (map_of d k \<noteq> None)"

text \<open>\<open>x.get(k, dflt)\<close> on an arbitrary value: only a dict has the method.\<close>

definition py_get :: "json \<Rightarrow> string \<Rightarrow> json \<Rightarrow> pyerror + json" where
  "py_get j k dflt = (case j of JObj d \<Rightarrow> Inr (dict_get d k dflt) | _ \<Rightarrow> Inl AttributeError)"

text \<open>\<open>x or y\<close>.\<close>

definition py_or :: "json \<Rightarrow> json \<Rightarrow> json" where
  "py_or x y = (if truthy x then x else y)"

section \<open>Strings\<close>

text \<open>
  A Python \<open>str\<close> is a sequence of code points; the model has the code points 0 to 255
  (one \<open>char\<close> each). On these, \<open>str.lower\<close> maps A-Z and the upper-case Latin-1 letters
  to their lower-case forms, \<open>str.isspace\<close> and the pattern \<open>\s\<close> hold of the twelve
  characters below, and \<open>\w\<close> holds of the alphanumeric characters and the underscore.
\<close>

definition code_point :: "char \<Rightarrow> nat" where
  "code_point c = of_char c"

definition is_space :: "char \<Rightarrow> bool" where
  "is_space c = (code_point c \<in> set [9, 10, 11, 12, 13, 28, 29, 30, 31, 32, 133, 160])"

definition is_digit :: "char \<Rightarrow> bool" where
  "is_digit c = (48 \<le> code_point c \<and> code_point c \<le> 57)"

definition is_word :: "char \<Rightarrow> bool" where
  "is_word c =
     (let n = code_point c
      in (48 \<le> n \<and> n \<le> 57) \<or> (65 \<le> n \<and> n \<le> 90) \<or> n = 95 \<or> (97 \<le> n \<and> n \<le> 122)
         \<or> n \<in> set [170, 178, 179, 181, 185, 186, 188, 189, 190]
         \<or> (192 \<le> n \<and> n \<noteq> 215 \<and> n \<noteq> 247))"

definition not_newline :: "char \<Rightarrow> bool" where
  "not_newline c = (code_point c \<noteq> 10)"

definition lower_char :: "char \<Rightarrow> char" where
  "lower_char c =
     (let n = code_point c
      in if (65 \<le> n \<and> n \<le> 90) \<or> (192 \<le> n \<and> n \<le> 222 \<and> n \<noteq> 215)
         then char_of (n + 32) else c)"

definition lower :: "string \<Rightarrow> string" where
  "lower s = map lower_char s"

definition strip :: "string \<Rightarrow> string" where
  "strip s = rev (dropWhile is_space (rev (dropWhile is_space s)))"

fun starts_with :: "string \<Rightarrow> string \<Rightarrow> bool" where
  "starts_with [] s = True"
| "starts_with (p # ps) [] = False"
| "starts_with (p # ps) (c # cs) = (p = c \<and> starts_with ps cs)"

text \<open>\<open>sub in s\<close>.\<close>

fun contains :: "string \<Rightarrow> string \<Rightarrow> bool" where
  "contains sub [] = (sub = [])"
| "contains sub (c # cs) = (starts_with sub (c # cs) \<or> contains sub cs)"

text \<open>Decimal digits of a number, and \<open>%0kd\<close> padding.\<close>

definition digit_char :: "nat \<Rightarrow> char" where
  "digit_char n = char_of (48 + n)"

fun dec :: "nat \<Rightarrow> string" where
  "dec n = (if n < 10 then [digit_char n] else dec (n div 10) @ [digit_char (n mod 10)])"

declare dec.simps [simp del]

definition zfill :: "nat \<Rightarrow> string \<Rightarrow> string" where
  "zfill k s = replicate (k - length s) (CHR ''0'') @ s"

subsection \<open>Regular expressions\<close>

text \<open>
  The patterns of the repository are built from literals, alternatives, sequences, the
  anchors \<open>^\<close> and \<open>\b\<close>, and repetitions of one character class (\<open>.*\<close>, \<open>\s*\<close>, \<open>\s+\<close>,
  \<open>\d{1,3}\<close>). \<open>ends r s i\<close> lists the positions where a match of \<open>r\<close> that starts at
  position \<open>i\<close> of \<open>s\<close> can end.
\<close>

datatype regex =
    Lit string
  | Cls "char \<Rightarrow> bool" nat "nat option"
  | WordB
  | Bol
  | Seq regex regex
  | Alt regex regex

definition word_at :: "string \<Rightarrow> nat \<Rightarrow> bool" where
  "word_at s i = (i < length s \<and> is_word (s ! i))"

definition boundary :: "string \<Rightarrow> nat \<Rightarrow> bool" where
  "boundary s i = ((0 < i \<and> word_at s (i - 1)) \<noteq> word_at s i)"

definition run_length :: "(char \<Rightarrow> bool) \<Rightarrow> string \<Rightarrow> nat" where
  "run_length p s = length (takeWhile p s)"

fun ends :: "regex \<Rightarrow> string \<Rightarrow> nat \<Rightarrow> nat list" where
  "ends (Lit w) s i = (if starts_with w (drop i s) then [i + length w] else [])"
| "ends (Cls p lo hi) s i =
     (let k = run_length p (drop i s);
          m = (case hi of None \<Rightarrow> k | Some h \<Rightarrow> min h k)
      in map (\<lambda>j. i + j) [lo..<Suc m])"
| "ends WordB s i = (if boundary s i then [i] else [])"
| "ends Bol s i = (if i = 0 then [i] else [])"
| "ends (Seq a b) s i = concat (map (ends b s) (ends a s i))"
| "ends (Alt a b) s i = ends a s i @ ends b s i"

text \<open>\<open>re.match\<close> tries position 0, \<open>re.search\<close> every position.\<close>

definition re_match :: "regex \<Rightarrow> string \<Rightarrow> bool" where
  "re_match r s = (ends r s 0 \<noteq> [])"

definition re_search :: "regex \<Rightarrow> string \<Rightarrow> bool" where
  "re_search r s = list_ex (\<lambda>i. ends r s i \<noteq> []) [0..<Suc (length s)]"

text \<open>An alternative of literals \<open>(w1|w2|...)\<close>, and a sequence of patterns.\<close>

fun alts :: "string list \<Rightarrow> regex" where
  "alts [] = Cls (\<lambda>c. False) 1 (Some 1)"
| "alts [w] = Lit w"
| "alts (w # ws) = Alt (Lit w) (alts ws)"

fun seqs :: "regex list \<Rightarrow> regex" where
  "seqs [] = Lit []"
| "seqs [r] = r"
| "seqs (r # rs) = Seq r (seqs rs)"

section \<open>Dates\<close>

text \<open>\<open>datetime.date\<close>: the constructor raises \<open>ValueError\<close> outside the years 1 to 9999 or
  for a day the month does not have.\<close>

record date =
  year :: int
  month :: int
  day :: int

definition is_leap :: "int \<Rightarrow> bool" where
  "is_leap y = (y mod 4 = 0 \<and> (y mod 100 \<noteq> 0 \<or> y mod 400 = 0))"

definition days_in_month :: "int \<Rightarrow> int \<Rightarrow> int" where
  "days_in_month y m =
     (if m = 2 then (if is_leap y then 29 else 28)
      else if m = 4 \<or> m = 6 \<or> m = 9 \<or> m = 11 then 30 else 31)"

definition valid_date :: "date \<Rightarrow> bool" where
  "valid_date d =
     (1 \<le> year d \<and> year d \<le> 9999 \<and> 1 \<le> month d \<and> month d \<le> 12
      \<and> 1 \<le> day d \<and> day d \<le> days_in_month (year d) (month d))"

definition date_ctor :: "int \<Rightarrow> int \<Rightarrow> int \<Rightarrow> pyerror + date" where
  "date_ctor y m d =
     (if valid_date \<lparr>year = y, month = m, day = d\<rparr>
      then Inr \<lparr>year = y, month = m, day = d\<rparr> else Inl ValueError)"

definition isoformat :: "date \<Rightarrow> string" where
  "isoformat d =
     zfill 4 (dec (nat (year d))) @ ''-'' @ zfill 2 (dec (nat (month d))) @ ''-''
       @ zfill 2 (dec (nat (day d)))"

section \<open>The completion client (llm\_client.py)\<close>

text \<open>
  \<open>LLMClient\<close> keeps the list \<open>_fail_window\<close> of failure timestamps. The clock
  \<open>time.time()\<close> and the number of requests sent to the completion backend are part of the
  modelled state, so that a theorem can say that no request was sent. Timestamps are
  Python floats; they are modelled as reals, i.e. the rounding of the subtraction
  \<open>now - t\<close> is not modelled.
\<close>

record client =
  fail_window :: "real list"
  now :: real
  calls :: nat

text \<open>What one request \<open>_call\<close> to the backend does: it returns the message content
  (\<open>None\<close> when the backend sends no content) or raises.\<close>

datatype call_outcome = Returns "string option" | Raises pyerror

text \<open>The backend is the environment of the client: the \<open>k\<close>-th request takes some time
  and has an outcome.\<close>

type_synonym backend = "nat \<Rightarrow> real \<times> call_outcome"

definition prune :: "real \<Rightarrow> real list \<Rightarrow> real list" where
  "prune t fw = filter (\<lambda>u. t - u < 90) fw"

text \<open>\<open>_check_circuit\<close>: the window is pruned to the trailing 90 seconds and stored; the
  call is refused when three or more failures remain and the last of them is less than 30
  seconds old.\<close>

definition check_circuit :: "client \<Rightarrow> (pyerror + unit) \<times> client" where
  "check_circuit c =
     (let fw = prune (now c) (fail_window c);
          c' = c\<lparr>fail_window := fw\<rparr>
      in if 3 \<le> length fw \<and> now c - last fw < 30
         then (Inl CircuitBreaker, c')
         else (Inr (), c'))"

definition record_fail :: "client \<Rightarrow> client" where
  "record_fail c = c\<lparr>fail_window := fail_window c @ [now c]\<rparr>"

text \<open>The exception classes caught by the two \<open>except\<close> clauses of \<open>complete\<close>
  (\<open>RateLimitError\<close> is a subclass of \<open>APIStatusError\<close>), and the classes the
  \<open>retry\<close> decorator retries.\<close>

definition recorded_error :: "pyerror \<Rightarrow> bool" where
  "recorded_error e = (e = APIConnectionError \<or> e = APIStatusError \<or> e = RateLimitError)"

definition retried_error :: "pyerror \<Rightarrow> bool" where
  "retried_error e = (e = APIConnectionError \<or> e = RateLimitError)"

text \<open>The undecorated body of \<open>complete\<close>: one attempt.\<close>

definition complete_once :: "backend \<Rightarrow> client \<Rightarrow> (pyerror + string option) \<times> client" where
  "complete_once b c =
     (case check_circuit c of
        (Inl e, c1) \<Rightarrow> (Inl e, c1)
      | (Inr _, c1) \<Rightarrow>
          (let (d, oc) = b (calls c1);
               c2 = c1\<lparr>now := now c1 + d, calls := Suc (calls c1)\<rparr>
           in case oc of
                Returns txt \<Rightarrow> (Inr txt, c2)
              | Raises e \<Rightarrow>
                  if recorded_error e then (Inl e, record_fail c2) else (Inl e, c2)))"

text \<open>
  The decorator is tenacity's \<open>retry\<close>, a library outside the repository. Its
  \<open>wait_exponential(multiplier, min, max)\<close> waits \<open>multiplier * 2 ^ (n - 1)\<close> seconds after
  the \<open>n\<close>-th attempt, clamped into \<open>[min, max]\<close>; \<open>stop_after_attempt(3)\<close> stops once the
  attempt number has reached 3; \<open>reraise=True\<close> raises the last exception itself.
\<close>

definition wait_exponential :: "real \<Rightarrow> real \<Rightarrow> real \<Rightarrow> nat \<Rightarrow> real" where
  "wait_exponential multiplier lo hi n = max (max 0 lo) (min (multiplier * 2 ^ (n - 1)) hi)"

definition backoff :: "nat \<Rightarrow> real" where
  "backoff n = wait_exponential 1 1 10 n"

definition sleep :: "real \<Rightarrow> client \<Rightarrow> client" where
  "sleep d c = c\<lparr>now := now c + d\<rparr>"

function complete_from :: "nat \<Rightarrow> backend \<Rightarrow> client \<Rightarrow> (pyerror + string option) \<times> client" where
  "complete_from n b c =
     (case complete_once b c of
        (Inr txt, c') \<Rightarrow> (Inr txt, c')
      | (Inl e, c') \<Rightarrow>
          if retried_error e \<and> n < 3
          then complete_from (Suc n) b (sleep (backoff n) c')
          else (Inl e, c'))"
  by pat_completeness auto
termination
  by (relation "measure (\<lambda>(n, b, c). 3 - n)") auto

declare complete_from.simps [simp del]

text \<open>\<open>LLMClient.complete\<close> as callers see it: attempts are numbered from 1.\<close>

definition complete :: "backend \<Rightarrow> client \<Rightarrow> (pyerror + string option) \<times> client" where
  "complete b c = complete_from 1 b c"

text \<open>A client as \<open>LLMClient.__init__\<close> leaves it, created at time \<open>t\<close>.\<close>

definition new_client :: "real \<Rightarrow> client" where
  "new_client t = \<lparr>fail_window = [], now = t, calls = 0\<rparr>"

text \<open>Two backends for concrete runs: one that answers at once, one that is unreachable.\<close>

definition backend_up :: backend where
  "backend_up k = (0, Returns (Some ''{}''))"

definition backend_down :: backend where
  "backend_down k = (0, Raises APIConnectionError)"

definition backend_status_error :: backend where
  "backend_status_error k = (0, Raises APIStatusError)"

section \<open>The planner and the execution engine (agent.py)\<close>

subsection \<open>Date helpers\<close>

definition add_months :: "date \<Rightarrow> int \<Rightarrow> pyerror + date" where
  "add_months d months =
     (let y = year d + (month d - 1 + months) div 12;
          m = (month d - 1 + months) mod 12 + 1
      in date_ctor y m (min (day d) 28))"

definition replace_day :: "date \<Rightarrow> int \<Rightarrow> pyerror + date" where
  "replace_day d k = date_ctor (year d) (month d) k"

text \<open>\<open>_last_n_month_range(n)\<close>, with \<open>date.today()\<close> as a parameter.\<close>

definition last_n_month_range :: "date \<Rightarrow> int \<Rightarrow> pyerror + string \<times> string" where
  "last_n_month_range today_d n =
     (case replace_day today_d 1 of
        Inl e \<Rightarrow> Inl e
      | Inr first \<Rightarrow>
          (case add_months first (- (n - 1)) of
             Inl e \<Rightarrow> Inl e
           | Inr start \<Rightarrow> Inr (isoformat start, isoformat today_d)))"

subsection \<open>Fast paths\<close>

text \<open>The pattern \<open>(best|top|highest).*(selling|sales).*(month)\<close>.\<close>

definition best_month_re :: regex where
  "best_month_re =
     seqs [alts [''best'', ''top'', ''highest''], Cls not_newline 0 None,
           alts [''selling'', ''sales''], Cls not_newline 0 None, Lit ''month'']"

definition sales_step :: "string \<Rightarrow> string \<Rightarrow> string \<Rightarrow> json" where
  "sales_step grp f t =
     JObj [(''tool'', JStr ''get_sales_stats''),
           (''args'', JObj [(''by'', JStr grp), (''from_date'', JStr f), (''to_date'', JStr t)])]"

definition analytics_plan :: "string \<Rightarrow> string \<Rightarrow> string \<Rightarrow> string list \<Rightarrow> pydict" where
  "analytics_plan grp f t risks =
     [(''intent'', JStr ''analytics''),
      (''steps'', JArr [sales_step grp f t]),
      (''confirm_required'', JBool False),
      (''risks'', JArr (map JStr risks))]"

definition is_best_month :: "string \<Rightarrow> bool" where
  "is_best_month lc = (re_search best_month_re lc \<or> contains ''best selling month'' lc)"

definition is_top_customers :: "string \<Rightarrow> bool" where
  "is_top_customers lc = contains ''top customers'' lc"

definition is_top_items :: "string \<Rightarrow> bool" where
  "is_top_items lc = (contains ''top items'' lc \<or> contains ''best sellers'' lc)"

definition fastpath :: "date \<Rightarrow> string \<Rightarrow> pyerror + pydict option" where
  "fastpath today_d command =
     (let lc = strip (lower command)
      in if is_best_month lc then
           (case last_n_month_range today_d 12 of
              Inl e \<Rightarrow> Inl e
            | Inr (f, t) \<Rightarrow>
                Inr (Some (analytics_plan ''month'' f t
                             [''Assumes last 12 months; adjust if needed.''])))
         else if is_top_customers lc then
           (case last_n_month_range today_d 12 of
              Inl e \<Rightarrow> Inl e
            | Inr (f, t) \<Rightarrow> Inr (Some (analytics_plan ''customer'' f t [])))
         else if is_top_items lc then
           (case last_n_month_range today_d 12 of
              Inl e \<Rightarrow> Inl e
            | Inr (f, t) \<Rightarrow> Inr (Some (analytics_plan ''item'' f t [])))
         else Inr None)"

subsection \<open>Normalization of the planner's steps\<close>

text \<open>\<open>(s.get("args") or {}).copy()\<close>: dicts and lists have a \<open>copy\<close> method, other
  values do not.\<close>

definition args_copy :: "json \<Rightarrow> pyerror + json" where
  "args_copy a =
     (case py_or a (JObj []) of
        JObj d \<Rightarrow> Inr (JObj d)
      | JArr xs \<Rightarrow> Inr (JArr xs)
      | _ \<Rightarrow> Inl AttributeError)"

text \<open>The three \<open>setdefault\<close> calls; a list has no such method.\<close>

definition stats_defaults :: "string \<Rightarrow> string \<Rightarrow> json \<Rightarrow> pyerror + json" where
  "stats_defaults f t a =
     (case a of
        JObj d \<Rightarrow>
          Inr (JObj (setdefault (setdefault (setdefault d ''by'' (JStr ''month''))
                                   ''from_date'' (JStr f)) ''to_date'' (JStr t)))
      | _ \<Rightarrow> Inl AttributeError)"

text \<open>The body of the loop of \<open>_normalize_steps\<close>. Its steps are dicts: the caller
  keeps only dicts.\<close>

definition normalize_step :: "string \<Rightarrow> string \<Rightarrow> pydict \<Rightarrow> pyerror + json" where
  "normalize_step f t s =
     (let tool = dict_get s ''tool'' JNull
      in case args_copy (dict_get s ''args'' JNull) of
           Inl e \<Rightarrow> Inl e
         | Inr a \<Rightarrow>
             (case (if tool = JStr ''get_sales_stats'' then stats_defaults f t a else Inr a) of
                Inl e \<Rightarrow> Inl e
              | Inr a1 \<Rightarrow>
                  (case (if tool = JStr ''get_purchase_stats'' then stats_defaults f t a1
                         else Inr a1) of
                     Inl e \<Rightarrow> Inl e
                   | Inr a2 \<Rightarrow> Inr (JObj [(''tool'', tool), (''args'', a2)]))))"

fun normalize_loop :: "string \<Rightarrow> string \<Rightarrow> pydict list \<Rightarrow> pyerror + json list" where
  "normalize_loop f t [] = Inr []"
| "normalize_loop f t (s # ss) =
     (case normalize_step f t s of
        Inl e \<Rightarrow> Inl e
      | Inr n \<Rightarrow>
          (case normalize_loop f t ss of
             Inl e \<Rightarrow> Inl e
           | Inr ns \<Rightarrow> Inr (n # ns)))"

definition normalize_steps :: "date \<Rightarrow> pydict list \<Rightarrow> pyerror + json list" where
  "normalize_steps today_d steps =
     (case last_n_month_range today_d 12 of
        Inl e \<Rightarrow> Inl e
      | Inr (f, t) \<Rightarrow> normalize_loop f t steps)"

subsection \<open>The planner\<close>

text \<open>Iterating over a value: a list yields its elements, a string its characters, a dict
  its keys; anything else is not iterable.\<close>

definition py_iter :: "json \<Rightarrow> pyerror + json list" where
  "py_iter j =
     (case j of
        JArr xs \<Rightarrow> Inr xs
      | JStr s \<Rightarrow> Inr (map (\<lambda>c. JStr [c]) s)
      | JObj d \<Rightarrow> Inr (map (\<lambda>kv. JStr (fst kv)) d)
      | _ \<Rightarrow> Inl TypeError)"

text \<open>The filter \<open>isinstance(s, dict) and s.get("tool")\<close> of the list comprehension.\<close>

fun tool_steps :: "json list \<Rightarrow> pydict list" where
  "tool_steps [] = []"
| "tool_steps (JObj s # js) =
     (if truthy (dict_get s ''tool'' JNull) then s # tool_steps js else tool_steps js)"
| "tool_steps (j # js) = tool_steps js"

text \<open>
  The body of the \<open>try\<close> block of \<open>classify_and_plan\<close>. \<open>json.loads\<close> is the standard
  library's parser, a parameter here: \<open>None\<close> stands for a decoding error. The completion
  is \<open>None\<close> when the backend sent no content, and \<open>json.loads(None)\<close> raises.
\<close>

definition parse_plan :: "(string \<Rightarrow> json option) \<Rightarrow> date \<Rightarrow> string option \<Rightarrow> pyerror + pydict" where
  "parse_plan loads today_d plan_raw =
     (case plan_raw of
        None \<Rightarrow> Inl TypeError
      | Some raw \<Rightarrow>
          (case loads raw of
             None \<Rightarrow> Inl ValueError
           | Some (JObj plan) \<Rightarrow>
               if has_key plan ''steps'' then
                 (case py_iter (dict_get plan ''steps'' (JArr [])) of
                    Inl e \<Rightarrow> Inl e
                  | Inr js \<Rightarrow>
                      (case normalize_steps today_d (tool_steps js) of
                         Inl e \<Rightarrow> Inl e
                       | Inr ns \<Rightarrow> Inr (dict_set plan ''steps'' (JArr ns))))
               else Inl AssertionError
           | Some j \<Rightarrow> Inl AssertionError))"

text \<open>The \<open>except Exception\<close> handler.\<close>

definition fallback_plan :: "date \<Rightarrow> pyerror + pydict" where
  "fallback_plan today_d =
     (case last_n_month_range today_d 12 of
        Inl e \<Rightarrow> Inl e
      | Inr (f, t) \<Rightarrow> Inr (analytics_plan ''month'' f t [''planner_fallback'']))"

text \<open>
  \<open>classify_and_plan(llm, command)\<close>. The client \<open>llm\<close> is given by its backend and its
  state; the result comes with the number of requests the client has sent. The call
  \<open>llm.complete\<close> stands before the \<open>try\<close> block: what it raises is not caught.
\<close>

definition classify_and_plan ::
  "(string \<Rightarrow> json option) \<Rightarrow> date \<Rightarrow> backend \<Rightarrow> client \<Rightarrow> string \<Rightarrow> nat \<times> (pyerror + pydict)" where
  "classify_and_plan loads today_d b llm command =
     (case fastpath today_d command of
        Inl e \<Rightarrow> (calls llm, Inl e)
      | Inr (Some fast) \<Rightarrow> (calls llm, Inr fast)
      | Inr None \<Rightarrow>
          (case complete b llm of
             (Inl e, llm') \<Rightarrow> (calls llm', Inl e)
           | (Inr plan_raw, llm') \<Rightarrow>
               (case parse_plan loads today_d plan_raw of
                  Inr plan \<Rightarrow> (calls llm', Inr plan)
                | Inl e \<Rightarrow> (calls llm', fallback_plan today_d))))"

subsection \<open>The tool registry\<close>

text \<open>
  The handlers of \<open>frappe_tools\<close> are the environment of the engine. A registry is the
  module as the engine sees it: \<open>reg name\<close> is the attribute \<open>ft.name\<close>, \<open>None\<close> when the
  module defines no such name (the attribute access raises \<open>AttributeError\<close>), and a
  handler maps its positional and keyword arguments to the payload it returns or to the
  exception it raises (also when it rejects its arguments). What a handler returns does
  not depend on earlier calls; no statement below relies on that. A \<open>tool_call\<close> records
  one call of a handler: its name, its positional arguments and its keyword arguments.
\<close>

datatype tool_call = Call (call_name: string) (call_pos: "json list") (call_kw: pydict)

type_synonym handler = "json list \<Rightarrow> pydict \<Rightarrow> pyerror + json"

type_synonym registry = "string \<Rightarrow> handler option"

definition READ_ONLY_TOOLS :: "string list" where
  "READ_ONLY_TOOLS =
     [''get_sales_stats'', ''get_purchase_stats'', ''get_inventory_snapshot'',
      ''run_sql'', ''run_report'']"

text \<open>\<open>tool not in READ_ONLY_TOOLS\<close>: the membership test hashes \<open>tool\<close>.\<close>

definition not_read_only :: "json \<Rightarrow> pyerror + bool" where
  "not_read_only tool =
     (if hashable tool then Inr (tool \<notin> set (map JStr READ_ONLY_TOOLS)) else Inl TypeError)"

text \<open>
  \<open>ft.f(**args)\<close> and \<open>ft.f(**args, idempotency_key=idem)\<close>. The attribute \<open>ft.f\<close> is
  looked up first (\<open>AttributeError\<close> when the module does not define it); then \<open>args\<close>
  must be a mapping, and a key \<open>idempotency_key\<close> in it clashes with the explicit
  keyword: in both cases \<open>TypeError\<close> is raised and the handler is not entered. The
  result is the list of calls made (none or one) with the outcome.
\<close>

definition call_kwargs :: "registry \<Rightarrow> string \<Rightarrow> json \<Rightarrow> string option \<Rightarrow> tool_call list \<times> (pyerror + json)" where
  "call_kwargs reg name args idem =
     (case reg name of
        None \<Rightarrow> ([], Inl AttributeError)
      | Some h \<Rightarrow>
          (case args of
             JObj d \<Rightarrow>
               (case idem of
                  None \<Rightarrow> ([Call name [] d], h [] d)
                | Some k \<Rightarrow>
                    if has_key d ''idempotency_key'' then ([], Inl TypeError)
                    else ([Call name [] (d @ [(''idempotency_key'', JStr k)])],
                          h [] (d @ [(''idempotency_key'', JStr k)])))
           | _ \<Rightarrow> ([], Inl TypeError)))"

definition wrap_rows :: "pyerror + json \<Rightarrow> pyerror + json" where
  "wrap_rows r = (case r of Inl e \<Rightarrow> Inl e | Inr rows \<Rightarrow> Inr (JObj [(''rows'', rows)]))"

text \<open>A field \<open>{x}\<close> of an f-string: a string stands for itself, another value for its
  \<open>str()\<close>, which is a parameter.\<close>

definition format_value :: "(json \<Rightarrow> string) \<Rightarrow> json \<Rightarrow> string" where
  "format_value py_str j = (case j of JStr s \<Rightarrow> s | _ \<Rightarrow> py_str j)"

text \<open>The \<open>if\<close>/\<open>elif\<close> chain of \<open>execute\<close>.\<close>

definition dispatch ::
  "registry \<Rightarrow> (json \<Rightarrow> string) \<Rightarrow> string \<Rightarrow> json \<Rightarrow> json \<Rightarrow> tool_call list \<times> (pyerror + json)" where
  "dispatch reg py_str idem tool args =
     (if tool = JStr ''create_doctype'' then call_kwargs reg ''create_doctype'' args (Some idem)
      else if tool = JStr ''update_doctype'' then call_kwargs reg ''update_doctype'' args (Some idem)
      else if tool = JStr ''create_workflow'' then call_kwargs reg ''create_workflow'' args (Some idem)
      else if tool = JStr ''create_query_report'' then
        call_kwargs reg ''create_query_report'' args (Some idem)
      else if tool = JStr ''create_script_report'' then
        call_kwargs reg ''create_script_report'' args (Some idem)
      else if tool = JStr ''run_report'' then call_kwargs reg ''run_report'' args None
      else if tool = JStr ''run_sql'' then
        (case call_kwargs reg ''run_sql'' args None of (tr, r) \<Rightarrow> (tr, wrap_rows r))
      else if tool = JStr ''get_sales_stats'' then call_kwargs reg ''get_sales_stats'' args None
      else if tool = JStr ''get_purchase_stats'' then
        call_kwargs reg ''get_purchase_stats'' args None
      else if tool = JStr ''get_inventory_snapshot'' then
        (case call_kwargs reg ''get_inventory_snapshot'' args None of
           (tr, r) \<Rightarrow> (tr, wrap_rows r))
      else if tool = JStr ''create_task'' then call_kwargs reg ''create_task'' args (Some idem)
      else if tool = JStr ''enqueue_background_job'' then
        call_kwargs reg ''enqueue_background_job'' args None
      else ([], Inr (JObj [(''error'', JStr (''unknown tool '' @ format_value py_str tool))])))"

text \<open>A per-step outcome: \<open>{step, tool, result}\<close>, or \<open>{step, tool, dry_run: True, args}\<close>
  for a step skipped in a dry run.\<close>

datatype outcome =
    Executed (step_no: nat) (step_tool: json) (step_result: json)
  | Skipped (step_no: nat) (step_tool: json) (step_args: json)

text \<open>The body of the loop over the steps.\<close>

definition run_step ::
  "registry \<Rightarrow> (json \<Rightarrow> string) \<Rightarrow> string \<Rightarrow> bool \<Rightarrow> nat \<Rightarrow> json \<Rightarrow> tool_call list \<times> (pyerror + outcome)" where
  "run_step reg py_str idem dry_run idx step =
     (case py_get step ''tool'' JNull of
        Inl e \<Rightarrow> ([], Inl e)
      | Inr tool \<Rightarrow>
          (case py_get step ''args'' (JObj []) of
             Inl e \<Rightarrow> ([], Inl e)
           | Inr a \<Rightarrow>
               (let args = py_or a (JObj [])
                in case (if dry_run then not_read_only tool else Inr False) of
                     Inl e \<Rightarrow> ([], Inl e)
                   | Inr True \<Rightarrow> ([], Inr (Skipped idx tool args))
                   | Inr False \<Rightarrow>
                       (case dispatch reg py_str idem tool args of
                          (tr, Inl e) \<Rightarrow> (tr, Inl e)
                        | (tr, Inr res) \<Rightarrow> (tr, Inr (Executed idx tool res))))))"

fun run_steps ::
  "registry \<Rightarrow> (json \<Rightarrow> string) \<Rightarrow> string \<Rightarrow> bool \<Rightarrow> nat \<Rightarrow> json list
     \<Rightarrow> tool_call list \<times> (pyerror + outcome list)" where
  "run_steps reg py_str idem dry_run idx [] = ([], Inr [])"
| "run_steps reg py_str idem dry_run idx (s # ss) =
     (case run_step reg py_str idem dry_run idx s of
        (tr, Inl e) \<Rightarrow> (tr, Inl e)
      | (tr, Inr oc) \<Rightarrow>
          (case run_steps reg py_str idem dry_run (Suc idx) ss of
             (tr', Inl e) \<Rightarrow> (tr @ tr', Inl e)
           | (tr', Inr ocs) \<Rightarrow> (tr @ tr', Inr (oc # ocs))))"

subsection \<open>The summary\<close>

text \<open>
  \<open>float(i)\<close> of an integer: the nearest double, ties to the even mantissa of 53 bits;
  \<open>OverflowError\<close> when the rounded value reaches \<open>2 ^ 1024\<close>. The value of a double is a
  real number.
\<close>

function bit_length :: "int \<Rightarrow> nat" where
  "bit_length a = (if a \<le> 0 then 0 else Suc (bit_length (a div 2)))"
  by pat_completeness auto

termination
  by (relation "measure nat") auto

declare bit_length.simps [simp del]

text \<open>The magnitude \<open>a\<close> is not negative; \<open>None\<close> stands for the overflow.\<close>

definition float_of_magnitude :: "int \<Rightarrow> int option" where
  "float_of_magnitude a =
     (let e = bit_length a - 53
      in if e = 0 then Some a
         else
           (let q = a div 2 ^ e; r = a mod 2 ^ e; half = 2 ^ (e - 1);
                q' = (if half < r \<or> (r = half \<and> odd q) then q + 1 else q)
            in if 2 ^ 1024 \<le> q' * 2 ^ e then None else Some (q' * 2 ^ e)))"

definition float_of_int :: "int \<Rightarrow> pyerror + real" where
  "float_of_int i =
     (case float_of_magnitude \<bar>i\<bar> of
        None \<Rightarrow> Inl OverflowError
      | Some m \<Rightarrow> Inr (real_of_int (if i < 0 then - m else m)))"

text \<open>
  \<open>float(x.get(k) or 0)\<close>, the key of \<open>max\<close> here and of \<open>sorted\<close> in the router. A bool
  that is truthy is \<open>True\<close>. \<open>str_float\<close> is Python's \<open>float()\<close> on a string (\<open>None\<close>:
  \<open>ValueError\<close>).
\<close>

definition float_key :: "(string \<Rightarrow> real option) \<Rightarrow> string \<Rightarrow> json \<Rightarrow> pyerror + real" where
  "float_key str_float k x =
     (case py_get x k JNull of
        Inl e \<Rightarrow> Inl e
      | Inr v \<Rightarrow>
          (case py_or v (JInt 0) of
             JInt i \<Rightarrow> float_of_int i
           | JFloat r \<Rightarrow> Inr r
           | JBool b \<Rightarrow> Inr 1
           | JStr s \<Rightarrow> (case str_float s of None \<Rightarrow> Inl ValueError | Some r \<Rightarrow> Inr r)
           | _ \<Rightarrow> Inl TypeError))"

definition revenue_key :: "(string \<Rightarrow> real option) \<Rightarrow> json \<Rightarrow> pyerror + real" where
  "revenue_key str_float x = float_key str_float ''revenue'' x"

text \<open>\<open>max(rows, key=...)\<close> on a non-empty list: the first row with the largest key.\<close>

fun max_by :: "(string \<Rightarrow> real option) \<Rightarrow> json \<Rightarrow> real \<Rightarrow> json list \<Rightarrow> pyerror + json" where
  "max_by str_float best k [] = Inr best"
| "max_by str_float best k (x # xs) =
     (case revenue_key str_float x of
        Inl e \<Rightarrow> Inl e
      | Inr k' \<Rightarrow> if k < k' then max_by str_float x k' xs else max_by str_float best k xs)"

text \<open>The summary text interpolates the period and the revenue of the best row; it is
  modelled by these two values.\<close>

datatype summary = BestMonth json json

text \<open>\<open>rows[0]\<close> of a truthy value: a list has a first element, the first element of a
  string is a string, a dict has no key 0, other values cannot be indexed.\<close>

definition first_row :: "json \<Rightarrow> pyerror + json" where
  "first_row rows =
     (case rows of
        JArr (x # xs) \<Rightarrow> Inr x
      | JStr (c # cs) \<Rightarrow> Inr (JStr [c])
      | JObj d \<Rightarrow> Inl KeyError
      | _ \<Rightarrow> Inl TypeError)"

definition dict_item :: "json \<Rightarrow> string \<Rightarrow> pyerror + json" where
  "dict_item j k =
     (case j of
        JObj d \<Rightarrow> (case map_of d k of None \<Rightarrow> Inl KeyError | Some v \<Rightarrow> Inr v)
      | _ \<Rightarrow> Inl TypeError)"

text \<open>The body of the summary loop for one outcome: \<open>Inr None\<close> when the loop goes on.\<close>

definition summary_of :: "(string \<Rightarrow> real option) \<Rightarrow> outcome \<Rightarrow> pyerror + summary option" where
  "summary_of str_float r =
     (case r of
        Skipped i tool args \<Rightarrow> Inr None
      | Executed i tool res \<Rightarrow>
          if tool \<noteq> JStr ''get_sales_stats'' then Inr None
          else
            (case py_get (py_or res (JObj [])) ''rows'' JNull of
               Inl e \<Rightarrow> Inl e
             | Inr rws \<Rightarrow>
                 (let rows = py_or rws (JArr [])
                  in if \<not> truthy rows then Inr None
                     else
                       (case first_row rows of
                          Inl e \<Rightarrow> Inl e
                        | Inr (JObj d) \<Rightarrow>
                            if has_key d ''period'' \<and> has_key d ''revenue'' then
                              (case rows of
                                 JArr (x # xs) \<Rightarrow>
                                   (case revenue_key str_float x of
                                      Inl e \<Rightarrow> Inl e
                                    | Inr k \<Rightarrow>
                                        (case max_by str_float x k xs of
                                           Inl e \<Rightarrow> Inl e
                                         | Inr best \<Rightarrow>
                                             (case dict_item best ''period'' of
                                                Inl e \<Rightarrow> Inl e
                                              | Inr p \<Rightarrow>
                                                  (case dict_item best ''revenue'' of
                                                     Inl e \<Rightarrow> Inl e
                                                   | Inr v \<Rightarrow> Inr (Some (BestMonth p v))))))
                               | _ \<Rightarrow> Inr None)
                            else Inr None
                        | Inr x \<Rightarrow> Inr None))))"

fun summarize :: "(string \<Rightarrow> real option) \<Rightarrow> outcome list \<Rightarrow> pyerror + summary option" where
  "summarize str_float [] = Inr None"
| "summarize str_float (r # rs) =
     (case summary_of str_float r of
        Inl e \<Rightarrow> Inl e
      | Inr (Some s) \<Rightarrow> Inr (Some s)
      | Inr None \<Rightarrow> summarize str_float rs)"

subsection \<open>execute\<close>

text \<open>
  The environment of one \<open>execute\<close> call: the current date, the two values of
  \<open>uuid.uuid4()\<close>, the clock when the completion client is created, the completion
  backend, the tool registry, the documentation lookup \<open>answer_question\<close> of the
  knowledge base, and the library functions \<open>json.loads\<close>, \<open>str\<close>, \<open>float\<close> on a string
  and \<open>date.fromisoformat\<close> (whose accepted formats depend on the Python version).
\<close>

record env =
  today :: date
  corr_uuid :: string
  idem_uuid :: string
  clock :: real
  llm_backend :: backend
  tools :: registry
  docs_answer :: "json \<Rightarrow> pyerror + json"
  json_loads :: "string \<Rightarrow> json option"
  py_str :: "json \<Rightarrow> string"
  str_float :: "string \<Rightarrow> real option"
  date_fromisoformat :: "json \<Rightarrow> pyerror + date"

datatype exec_result =
    AwaitingConfirmation string pydict
  | Completed "string option" pydict "outcome list" "summary option"

text \<open>\<open>bool(plan.get("confirm_required")) or (intent in {"structural_change"})\<close>: the
  membership test is evaluated only when the first operand is false, and hashes the
  intent.\<close>

definition confirm_needed :: "pydict \<Rightarrow> pyerror + bool" where
  "confirm_needed plan =
     (let intent = dict_get plan ''intent'' (JStr ''analytics'')
      in if truthy (dict_get plan ''confirm_required'' JNull) then Inr True
         else if hashable intent then Inr (intent = JStr ''structural_change'')
         else Inl TypeError)"

text \<open>\<open>plan.get("steps", [])[:8]\<close>. Every plan of \<open>classify_and_plan\<close> has a list
  here (lemma \<open>classify_and_plan_steps\<close>); other values are not modelled further.\<close>

definition plan_steps :: "pydict \<Rightarrow> pyerror + json list" where
  "plan_steps plan =
     (case dict_get plan ''steps'' (JArr []) of
        JArr xs \<Rightarrow> Inr (take 8 xs)
      | _ \<Rightarrow> Inl TypeError)"

text \<open>\<open>not confirm_token\<close>: the token is \<open>None\<close> or the empty string.\<close>

definition no_token :: "string option \<Rightarrow> bool" where
  "no_token tok = (tok = None \<or> tok = Some [])"

text \<open>The part of \<open>execute\<close> after the plan is obtained. The result comes with the list
  of tool calls made, in order.\<close>

definition execute_plan ::
  "env \<Rightarrow> bool \<Rightarrow> string option \<Rightarrow> pydict \<Rightarrow> tool_call list \<times> (pyerror + exec_result)" where
  "execute_plan ev dry_run confirm_token plan =
     (case plan_steps plan of
        Inl e \<Rightarrow> ([], Inl e)
      | Inr steps \<Rightarrow>
          (case confirm_needed plan of
             Inl e \<Rightarrow> ([], Inl e)
           | Inr needed \<Rightarrow>
               if needed \<and> no_token confirm_token \<and> \<not> dry_run
               then ([], Inr (AwaitingConfirmation (corr_uuid ev) plan))
               else
                 (case run_steps (tools ev) (py_str ev) (idem_uuid ev) dry_run 1 steps of
                    (tr, Inl e) \<Rightarrow> (tr, Inl e)
                  | (tr, Inr results) \<Rightarrow>
                      (case summarize (str_float ev) results of
                         Inl e \<Rightarrow> (tr, Inl e)
                       | Inr sm \<Rightarrow>
                           (tr, Inr (Completed (Some (corr_uuid ev)) plan results sm))))))"

text \<open>\<open>execute(command_text, user, dry_run, confirm_token)\<close>: a new client is created for
  every call (reading the configuration is taken to succeed). \<open>user\<close> is not used.\<close>

definition plan_for :: "env \<Rightarrow> string \<Rightarrow> nat \<times> (pyerror + pydict)" where
  "plan_for ev command_text =
     classify_and_plan (json_loads ev) (today ev) (llm_backend ev) (new_client (clock ev))
       command_text"

definition execute ::
  "env \<Rightarrow> string \<Rightarrow> string \<Rightarrow> bool \<Rightarrow> string option \<Rightarrow> tool_call list \<times> (pyerror + exec_result)" where
  "execute ev command_text user dry_run confirm_token =
     (case snd (plan_for ev command_text) of
        Inl e \<Rightarrow> ([], Inl e)
      | Inr plan \<Rightarrow> execute_plan ev dry_run confirm_token plan)"

section \<open>The deterministic router (router.py)\<close>

subsection \<open>Date arithmetic\<close>

text \<open>
  \<open>date - timedelta(days=k)\<close> goes through the proleptic Gregorian ordinal (day 1 is
  0001-01-01), as \<open>datetime\<close> does, and raises \<open>OverflowError\<close> outside the years 1 to
  9999.
\<close>

definition days_before_year :: "int \<Rightarrow> int" where
  "days_before_year y = (y - 1) * 365 + (y - 1) div 4 - (y - 1) div 100 + (y - 1) div 400"

fun days_before_month :: "int \<Rightarrow> nat \<Rightarrow> int" where
  "days_before_month y 0 = 0"
| "days_before_month y (Suc k) =
     (if k = 0 then 0 else days_before_month y k + days_in_month y (int k))"

definition toordinal :: "date \<Rightarrow> int" where
  "toordinal d = days_before_year (year d) + days_before_month (year d) (nat (month d)) + day d"

definition MAXORDINAL :: int where
  "MAXORDINAL = 3652059"

definition ord2ymd :: "int \<Rightarrow> date" where
  "ord2ymd ordinal =
     (let n0 = ordinal - 1;
          n400 = n0 div 146097; n1 = n0 mod 146097;
          n100 = n1 div 36524; n2 = n1 mod 36524;
          n4 = n2 div 1461; n3 = n2 mod 1461;
          n1y = n3 div 365; n = n3 mod 365;
          y = n400 * 400 + 1 + n100 * 100 + n4 * 4 + n1y
      in if n1y = 4 \<or> n100 = 4 then \<lparr>year = y - 1, month = 12, day = 31\<rparr>
         else
           (let m0 = (n + 50) div 32;
                p0 = days_before_month y (nat m0);
                m = (if n < p0 then m0 - 1 else m0);
                p = (if n < p0 then p0 - days_in_month y (m0 - 1) else p0)
            in \<lparr>year = y, month = m, day = n - p + 1\<rparr>))"

definition minus_days :: "date \<Rightarrow> int \<Rightarrow> pyerror + date" where
  "minus_days d k =
     (let n = toordinal d - k
      in if 0 < n \<and> n \<le> MAXORDINAL then Inr (ord2ymd n) else Inl OverflowError)"

definition first_day_of_year :: "date \<Rightarrow> pyerror + date" where
  "first_day_of_year d = date_ctor (year d) 1 1"

definition first_day_of_month :: "date \<Rightarrow> pyerror + date" where
  "first_day_of_month d = date_ctor (year d) (month d) 1"

definition last_day_of_month :: "date \<Rightarrow> pyerror + date" where
  "last_day_of_month d =
     (if month d = 12 then date_ctor (year d) 12 31
      else (case date_ctor (year d) (month d + 1) 1 of
              Inl e \<Rightarrow> Inl e
            | Inr nxt \<Rightarrow> minus_days nxt 1))"

text \<open>
  \<open>date.fromisoformat\<close> is a parameter of the environment (\<open>date_fromisoformat\<close>): Python
  3.11 and later read more formats than earlier versions. \<open>fromisoformat_ymd\<close> is the
  function of Python 3.7 to 3.10, which reads the format \<open>YYYY-MM-DD\<close> that \<open>isoformat\<close>
  writes and nothing else.
\<close>

definition digit_val :: "char \<Rightarrow> int" where
  "digit_val c = int (code_point c) - 48"

definition digits_val :: "string \<Rightarrow> int" where
  "digits_val s = foldl (\<lambda>a c. 10 * a + digit_val c) 0 s"

definition fromisoformat_ymd :: "json \<Rightarrow> pyerror + date" where
  "fromisoformat_ymd j =
     (case j of
        JStr s \<Rightarrow>
          if length s = 10 \<and> s ! 4 = CHR ''-'' \<and> s ! 7 = CHR ''-''
             \<and> list_all is_digit (take 4 s @ take 2 (drop 5 s) @ drop 8 s)
          then date_ctor (digits_val (take 4 s)) (digits_val (take 2 (drop 5 s)))
                 (digits_val (drop 8 s))
          else Inl ValueError
      | _ \<Rightarrow> Inl TypeError)"

subsection \<open>Detection\<close>

text \<open>The three entries of \<open>_SYNONYMS_DOMAIN\<close>, and \<open>_SYNONYMS_DIM\<close> in the order of its
  entries.\<close>

definition SYNONYMS_DOMAIN_sales :: "string list" where
  "SYNONYMS_DOMAIN_sales =
     [''sale'', ''sell'', ''revenue'', ''turnover'', ''customers'', ''invoice'', ''si'',
      ''sales invoice'']"

definition SYNONYMS_DOMAIN_purchase :: "string list" where
  "SYNONYMS_DOMAIN_purchase =
     [''buy'', ''bought'', ''vendor'', ''supplier'', ''po'', ''purchase'', ''spend'', ''ap'']"

definition SYNONYMS_DOMAIN_inventory :: "string list" where
  "SYNONYMS_DOMAIN_inventory = [''stock'', ''inventory'', ''warehouse'', ''qty'', ''available'']"

definition SYNONYMS_DIM :: "(string \<times> string list) list" where
  "SYNONYMS_DIM =
     [(''month'', [''month'', ''monthly'']),
      (''customer'', [''customer'', ''customers'', ''party'']),
      (''item'', [''item'', ''sku'', ''product'']),
      (''region'', [''region'', ''territory'', ''country'', ''state'']),
      (''supplier'', [''supplier'', ''vendor''])]"

text \<open>A pattern \<open>\b(...)\b\<close>.\<close>

definition word_re :: "regex \<Rightarrow> regex" where
  "word_re r = seqs [WordB, r, WordB]"

text \<open>\<open>\s+\<close>.\<close>

definition spaces1 :: regex where
  "spaces1 = Cls is_space 1 None"

text \<open>\<open>_parse_date_range\<close>: the first pattern that matches decides; the default is the
  last 365 days.\<close>

definition parse_date_range :: "date \<Rightarrow> string \<Rightarrow> pyerror + string \<times> string \<times> string" where
  "parse_date_range today_d text_in =
     (let t = lower text_in
      in if re_search (word_re (alts [''ytd'', ''this year'', ''year to date''])) t then
           (case first_day_of_year today_d of
              Inl e \<Rightarrow> Inl e
            | Inr d \<Rightarrow> Inr (isoformat d, isoformat today_d, ''this year''))
         else if re_search (word_re (Alt (seqs [Lit ''last'', spaces1, Lit ''12'', spaces1,
                                                 Lit ''months''])
                                          (Lit ''l12m''))) t then
           (case minus_days today_d 365 of
              Inl e \<Rightarrow> Inl e
            | Inr start \<Rightarrow> Inr (isoformat start, isoformat today_d, ''last 12 months''))
         else if re_search (word_re (seqs [Lit ''last'', spaces1, Lit ''30'', spaces1,
                                            Lit ''days''])) t then
           (case minus_days today_d 30 of
              Inl e \<Rightarrow> Inl e
            | Inr start \<Rightarrow> Inr (isoformat start, isoformat today_d, ''last 30 days''))
         else if re_search (word_re (alts [''this month'', ''mtd'', ''month to date''])) t then
           (case first_day_of_month today_d of
              Inl e \<Rightarrow> Inl e
            | Inr d \<Rightarrow> Inr (isoformat d, isoformat today_d, ''this month''))
         else if re_search (word_re (Lit ''last month'')) t then
           (case replace_day today_d 1 of
              Inl e \<Rightarrow> Inl e
            | Inr first \<Rightarrow>
                (case minus_days first 1 of
                   Inl e \<Rightarrow> Inl e
                 | Inr lm \<Rightarrow>
                     (case first_day_of_month lm of
                        Inl e \<Rightarrow> Inl e
                      | Inr a \<Rightarrow>
                          (case last_day_of_month lm of
                             Inl e \<Rightarrow> Inl e
                           | Inr b \<Rightarrow> Inr (isoformat a, isoformat b, ''last month'')))))
         else if re_search (word_re (Lit ''today'')) t then
           Inr (isoformat today_d, isoformat today_d, ''today'')
         else if re_search (word_re (Lit ''yesterday'')) t then
           (case minus_days today_d 1 of
              Inl e \<Rightarrow> Inl e
            | Inr y \<Rightarrow> Inr (isoformat y, isoformat y, ''yesterday''))
         else
           (case minus_days today_d 365 of
              Inl e \<Rightarrow> Inl e
            | Inr start \<Rightarrow> Inr (isoformat start, isoformat today_d, ''last 12 months'')))"

text \<open>
  \<open>_detect_top_n\<close>: the pattern \<open>\btop\s+(\d{1,3})\b\<close>. The digits of the leftmost match
  are the one to three digits after the spaces; they end at a word boundary, so the
  group is determined by the start of the match.
\<close>

definition top_digits :: "string \<Rightarrow> nat \<Rightarrow> string list" where
  "top_digits s i =
     concat (map (\<lambda>j. map (\<lambda>e. take (e - j) (drop j s))
                          (ends (Seq (Cls is_digit 1 (Some 3)) WordB) s j))
                 (ends (seqs [WordB, Lit ''top'', spaces1]) s i))"

definition detect_top_n :: "string \<Rightarrow> int option" where
  "detect_top_n text_in =
     (let t = lower text_in
      in case concat (map (top_digits t) [0..<Suc (length t)]) of
           [] \<Rightarrow> None
         | ds # rest \<Rightarrow> Some (max 1 (min 200 (digits_val ds))))"

text \<open>\<open>_match_any\<close>: one of the words occurs between word boundaries.\<close>

definition match_any :: "string \<Rightarrow> string list \<Rightarrow> bool" where
  "match_any text_in ws = list_ex (\<lambda>w. re_search (word_re (Lit w)) (lower text_in)) ws"

text \<open>\<open>_detect_domain\<close>: purchase before inventory before sales, sales by default.\<close>

definition detect_domain :: "string \<Rightarrow> string" where
  "detect_domain text_in =
     (let t = lower text_in
      in if match_any t SYNONYMS_DOMAIN_purchase then ''purchase''
         else if match_any t SYNONYMS_DOMAIN_inventory then ''inventory''
         else if match_any t SYNONYMS_DOMAIN_sales then ''sales''
         else ''sales'')"

text \<open>\<open>_detect_dimension\<close>: the loop over \<open>_SYNONYMS_DIM\<close>, then the defaults of the
  domain. A supplier word counts only in the purchase domain.\<close>

fun dimension_loop :: "string \<Rightarrow> string \<Rightarrow> (string \<times> string list) list \<Rightarrow> string option" where
  "dimension_loop t domain [] = None"
| "dimension_loop t domain ((d, alternatives) # rest) =
     (if match_any t alternatives then
        (if d = ''supplier'' \<and> domain = ''purchase'' then Some ''supplier''
         else if d \<noteq> ''supplier'' then Some d
         else dimension_loop t domain rest)
      else dimension_loop t domain rest)"

definition detect_dimension :: "string \<Rightarrow> string \<Rightarrow> string" where
  "detect_dimension text_in domain =
     (case dimension_loop (lower text_in) domain SYNONYMS_DIM of
        Some d \<Rightarrow> d
      | None \<Rightarrow>
          if domain = ''sales'' then ''customer''
          else if domain = ''purchase'' then ''supplier''
          else ''month'')"

text \<open>The pattern \<open>^\s*(how|what|why|when|where|explain|guide|docs?)\b\<close>.\<close>

definition docs_re :: regex where
  "docs_re =
     seqs [Bol, Cls is_space 0 None,
           alts [''how'', ''what'', ''why'', ''when'', ''where'', ''explain'', ''guide'',
                 ''doc'', ''docs''],
           WordB]"

definition is_docs_question :: "string \<Rightarrow> bool" where
  "is_docs_question text_in = re_match docs_re (lower (strip text_in))"

subsection \<open>route\<close>

text \<open>The report grouping of a dimension, the arguments of an aggregation, and \<open>route\<close>
  itself, with \<open>date.today()\<close> as a parameter.\<close>

definition group_ui :: "string \<Rightarrow> string" where
  "group_ui d =
     (case map_of [(''month'', ''Month''), (''customer'', ''Customer''), (''item'', ''Item Code''),
                   (''region'', ''Territory''), (''supplier'', ''Supplier'')] d of
        Some g \<Rightarrow> g
      | None \<Rightarrow> ''Month'')"

definition json_opt_int :: "int option \<Rightarrow> json" where
  "json_opt_int n = (case n of None \<Rightarrow> JNull | Some i \<Rightarrow> JInt i)"

definition stats_args :: "string \<Rightarrow> string \<Rightarrow> string \<Rightarrow> int option \<Rightarrow> json" where
  "stats_args d from_date to_date top_n =
     JObj [(''by'', JStr d), (''from_date'', JStr from_date), (''to_date'', JStr to_date),
           (''top_n'', json_opt_int top_n)]"

definition route :: "date \<Rightarrow> string \<Rightarrow> pyerror + pydict" where
  "route today_d query =
     (let q = strip query
      in if is_docs_question q then
           Inr [(''intent'', JStr ''doc_help''), (''action'', JStr ''rag''), (''query'', JStr q)]
         else
           (let domain = detect_domain q
            in case parse_date_range today_d q of
                 Inl e \<Rightarrow> Inl e
               | Inr (from_date, to_date, label) \<Rightarrow>
                   (let top_n = detect_top_n q;
                        d = detect_dimension q domain
                    in if re_search (word_re (seqs [Lit ''run'', spaces1, Lit ''report'']))
                            (lower q) then
                         Inr [(''intent'', JStr ''reporting''), (''action'', JStr ''run_report''),
                              (''report_name'',
                               JStr (if domain = ''sales'' then ''Sales Analytics''
                                     else ''Purchase Analytics'')),
                              (''filters'',
                               JObj [(''from_date'', JStr from_date), (''to_date'', JStr to_date),
                                     (''group_by'', JStr (group_ui d))])]
                       else if domain = ''inventory'' then
                         Inr [(''intent'', JStr ''analytics''),
                              (''action'', JStr ''inventory_snapshot''),
                              (''args'', JObj [(''warehouse'', JNull)])]
                       else if domain = ''purchase'' then
                         Inr [(''intent'', JStr ''analytics''), (''action'', JStr ''purchase_stats''),
                              (''args'', stats_args d from_date to_date top_n)]
                       else
                         Inr [(''intent'', JStr ''analytics''), (''action'', JStr ''sales_stats''),
                              (''args'', stats_args d from_date to_date top_n)])))"

subsection \<open>execute\_routed\<close>

text \<open>
  \<open>str.title()\<close>: a cased character after an uncased one (or at the start) is put in
  title case, a cased character after a cased one in lower case. Within the 256 code
  points the title case of a lower-case letter is the letter 32 places before it, and
  that of \<open>U+00DF\<close> is \<open>Ss\<close>; the feminine and masculine ordinal indicators are cased and
  have no other case. The title case of the micro sign \<open>U+00B5\<close> and of \<open>U+00FF\<close> lies
  outside the 256 code points of the model: these two characters are left as they are.
\<close>

definition is_cased :: "char \<Rightarrow> bool" where
  "is_cased c =
     (let n = code_point c
      in (65 \<le> n \<and> n \<le> 90) \<or> (97 \<le> n \<and> n \<le> 122) \<or> n = 170 \<or> n = 181 \<or> n = 186
         \<or> (192 \<le> n \<and> n \<noteq> 215 \<and> n \<noteq> 247))"

definition title_char :: "char \<Rightarrow> string" where
  "title_char c =
     (let n = code_point c
      in if (97 \<le> n \<and> n \<le> 122) \<or> (224 \<le> n \<and> n \<le> 254 \<and> n \<noteq> 247) then [char_of (n - 32)]
         else if n = 223 then ''Ss''
         else [c])"

fun title_from :: "bool \<Rightarrow> string \<Rightarrow> string" where
  "title_from prev [] = []"
| "title_from prev (c # cs) =
     (if is_cased c then (if prev then [lower_char c] else title_char c) @ title_from True cs
      else c # title_from False cs)"

definition title :: "string \<Rightarrow> string" where
  "title s = title_from False s"

text \<open>The documentation lookup \<open>answer_question(question, top_k=6)\<close> and the answer
  dict built from it.\<close>

definition ask :: "env \<Rightarrow> json \<Rightarrow> tool_call list \<times> (pyerror + json)" where
  "ask ev question =
     ([Call ''answer_question'' [question] [(''top_k'', JInt 6)]], docs_answer ev question)"

definition answer_dict :: "string \<Rightarrow> json \<Rightarrow> pyerror + json" where
  "answer_dict ttl ans =
     (case py_get ans ''answer'' JNull of
        Inl e \<Rightarrow> Inl e
      | Inr a \<Rightarrow>
          Inr (JObj [(''title'', JStr ttl), (''columns'', JArr [JStr ''answer'']),
                     (''rows'', JArr [JArr [py_or a (JStr [])]]), (''raw'', ans)]))"

text \<open>\<open>d[k]\<close> on the routing decision and \<open>d.pop(k)\<close>.\<close>

definition dict_del :: "pydict \<Rightarrow> string \<Rightarrow> pydict" where
  "dict_del d k = filter (\<lambda>kv. fst kv \<noteq> k) d"

text \<open>\<open>sorted(rows, key=lambda r: float(r.get("total") or 0), reverse=True)[:top_n]\<close>
  inside \<open>try\<close>: \<open>None\<close> when anything raises. The sort is stable.\<close>

fun total_keys :: "(string \<Rightarrow> real option) \<Rightarrow> json list \<Rightarrow> (real \<times> json) list option" where
  "total_keys sf [] = Some []"
| "total_keys sf (x # xs) =
     (case float_key sf ''total'' x of
        Inl e \<Rightarrow> None
      | Inr k \<Rightarrow>
          (case total_keys sf xs of
             None \<Rightarrow> None
           | Some ks \<Rightarrow> Some ((k, x) # ks)))"

definition slice_to :: "json \<Rightarrow> json list \<Rightarrow> json list option" where
  "slice_to n xs =
     (case n of
        JInt i \<Rightarrow> Some (if 0 \<le> i then take (nat i) xs else take (length xs - nat (- i)) xs)
      | JBool b \<Rightarrow> Some (take (if b then 1 else 0) xs)
      | _ \<Rightarrow> None)"

definition top_rows :: "(string \<Rightarrow> real option) \<Rightarrow> json \<Rightarrow> json \<Rightarrow> json option" where
  "top_rows sf rows top_n =
     (case py_iter rows of
        Inl e \<Rightarrow> None
      | Inr xs \<Rightarrow>
          (case total_keys sf xs of
             None \<Rightarrow> None
           | Some ks \<Rightarrow>
               (case slice_to top_n (map snd (sort_key (\<lambda>p. - fst p) ks)) of
                  None \<Rightarrow> None
                | Some ys \<Rightarrow> Some (JArr ys))))"

text \<open>The end of the analytics branch: the top-N cut and the two \<open>setdefault\<close> calls.
  \<open>dim.title()\<close> needs a string.\<close>

definition finish_stats ::
  "(string \<Rightarrow> real option) \<Rightarrow> json \<Rightarrow> json \<Rightarrow> json \<Rightarrow> pydict \<Rightarrow> json \<Rightarrow> pyerror + json" where
  "finish_stats sf action d top_n data rows =
     (let data1 =
            (if truthy rows \<and> truthy top_n then
               (case top_rows sf rows top_n of
                  None \<Rightarrow> data
                | Some rows' \<Rightarrow> dict_set data ''rows'' rows')
             else data)
      in case d of
           JStr ds \<Rightarrow>
             Inr (JObj (setdefault
                          (setdefault data1 ''title''
                             (JStr ((if action = JStr ''sales_stats'' then ''Sales''
                                     else ''Purchases'') @ '' by '' @ title ds)))
                          ''group_by'' d))
         | _ \<Rightarrow> Inl AttributeError)"

text \<open>The analytics branch: one call of the getter, a second one over three years
  when the first has no rows. \<open>r["args"].copy()\<close> and the two \<open>pop\<close> calls need a dict:
  on a list \<open>pop("by")\<close> raises \<open>TypeError\<close>, other values have no \<open>copy\<close>. The getter is
  looked up in the module after the two \<open>pop\<close> calls.\<close>

definition run_stats :: "env \<Rightarrow> json \<Rightarrow> pydict \<Rightarrow> tool_call list \<times> (pyerror + json)" where
  "run_stats ev action r =
     (case map_of r ''args'' of
        None \<Rightarrow> ([], Inl KeyError)
      | Some (JObj a) \<Rightarrow>
          (case map_of a ''by'' of
             None \<Rightarrow> ([], Inl KeyError)
           | Some d \<Rightarrow>
               (let top_n = dict_get a ''top_n'' JNull;
                    args = dict_del (dict_del a ''by'') ''top_n'';
                    name = (if action = JStr ''sales_stats'' then ''get_sales_stats''
                            else ''get_purchase_stats'')
                in case tools ev name of
                     None \<Rightarrow> ([], Inl AttributeError)
                   | Some getter \<Rightarrow>
                       (let c1 = Call name [] ((''by'', d) # args)
                        in case getter [] ((''by'', d) # args) of
                             Inl e \<Rightarrow> ([c1], Inl e)
                           | Inr (JObj data) \<Rightarrow>
                               (let rows = dict_get data ''rows'' (JArr [])
                                in if truthy rows then
                                     ([c1], finish_stats (str_float ev) action d top_n data rows)
                                   else
                                     (case (map_of args ''from_date'', map_of args ''to_date'') of
                                        (Some f, Some t) \<Rightarrow>
                                          (case date_fromisoformat ev t of
                                             Inl e \<Rightarrow> ([c1], Inl e)
                                           | Inr t_dt \<Rightarrow>
                                               (case minus_days t_dt (365 * 3) of
                                                  Inl e \<Rightarrow> ([c1], Inl e)
                                                | Inr f2 \<Rightarrow>
                                                    (let kw2 = [(''by'', d),
                                                                (''from_date'', JStr (isoformat f2)),
                                                                (''to_date'', t)];
                                                         c2 = Call name [] kw2
                                                     in case getter [] kw2 of
                                                          Inl e \<Rightarrow> ([c1, c2], Inl e)
                                                        | Inr (JObj data2) \<Rightarrow>
                                                            ([c1, c2],
                                                             finish_stats (str_float ev) action d
                                                               top_n data2
                                                               (dict_get data2 ''rows'' (JArr [])))
                                                        | Inr other \<Rightarrow>
                                                            ([c1, c2], Inl AttributeError))))
                                      | _ \<Rightarrow> ([c1], Inl KeyError)))
                           | Inr other \<Rightarrow> ([c1], Inl AttributeError))))
      | Some (JArr xs) \<Rightarrow> ([], Inl TypeError)
      | Some other \<Rightarrow> ([], Inl AttributeError))"

text \<open>The report branch. \<open>index_in names cols\<close> is the \<open>next(...)\<close> over \<open>enumerate(cols)\<close>.\<close>

fun lower_all :: "json list \<Rightarrow> pyerror + string list" where
  "lower_all [] = Inr []"
| "lower_all (JStr s # js) =
     (case lower_all js of Inl e \<Rightarrow> Inl e | Inr ss \<Rightarrow> Inr (lower s # ss))"
| "lower_all (j # js) = Inl AttributeError"

fun index_in :: "string list \<Rightarrow> string list \<Rightarrow> nat option" where
  "index_in names [] = None"
| "index_in names (c # cs) =
     (if c \<in> set names then Some 0 else map_option Suc (index_in names cs))"

definition py_len :: "json \<Rightarrow> pyerror + nat" where
  "py_len j =
     (case j of
        JArr xs \<Rightarrow> Inr (length xs)
      | JStr s \<Rightarrow> Inr (length s)
      | JObj d \<Rightarrow> Inr (length d)
      | _ \<Rightarrow> Inl TypeError)"

text \<open>\<open>x[i]\<close> for an index below \<open>len(x)\<close>.\<close>

definition py_index :: "json \<Rightarrow> nat \<Rightarrow> pyerror + json" where
  "py_index j i =
     (case j of
        JArr xs \<Rightarrow> Inr (xs ! i)
      | JStr s \<Rightarrow> Inr (JStr [s ! i])
      | JObj d \<Rightarrow> Inl KeyError
      | _ \<Rightarrow> Inl TypeError)"

fun shape_rows :: "nat \<Rightarrow> nat \<Rightarrow> json list \<Rightarrow> pyerror + json list" where
  "shape_rows lab num [] = Inr []"
| "shape_rows lab num (x # xs) =
     (case py_len x of
        Inl e \<Rightarrow> Inl e
      | Inr n \<Rightarrow>
          if max lab num < n then
            (case py_index x lab of
               Inl e \<Rightarrow> Inl e
             | Inr l \<Rightarrow>
                 (case py_index x num of
                    Inl e \<Rightarrow> Inl e
                  | Inr t \<Rightarrow>
                      (case shape_rows lab num xs of
                         Inl e \<Rightarrow> Inl e
                       | Inr ys \<Rightarrow> Inr (JObj [(''label'', l), (''total'', t)] # ys))))
          else shape_rows lab num xs)"

definition LABEL_COLUMNS :: "string list" where
  "LABEL_COLUMNS =
     [''customer'', ''supplier'', ''item'', ''month'', ''territory'', ''region'', ''label'',
      ''name'']"

definition TOTAL_COLUMNS :: "string list" where
  "TOTAL_COLUMNS = [''grand total'', ''total'', ''amount'', ''value'', ''net total'']"

definition shape_report :: "pydict \<Rightarrow> pydict \<Rightarrow> pyerror + json" where
  "shape_report r rep =
     (case py_iter (dict_get rep ''columns'' (JArr [])) of
        Inl e \<Rightarrow> Inl e
      | Inr cs \<Rightarrow>
          (case lower_all cs of
             Inl e \<Rightarrow> Inl e
           | Inr cols \<Rightarrow>
               (let rows = dict_get rep ''rows'' (JArr [])
                in if cols \<noteq> [] \<and> truthy rows then
                     (case first_row rows of
                        Inl e \<Rightarrow> Inl e
                      | Inr (JArr r0) \<Rightarrow>
                          (let lab = (case index_in LABEL_COLUMNS cols of
                                        None \<Rightarrow> 0 | Some i \<Rightarrow> i)
                           in case index_in TOTAL_COLUMNS cols of
                                None \<Rightarrow> Inr (JObj rep)
                              | Some num \<Rightarrow>
                                  (case shape_rows lab num
                                          (case rows of JArr xs \<Rightarrow> xs | _ \<Rightarrow> []) of
                                     Inl e \<Rightarrow> Inl e
                                   | Inr shaped \<Rightarrow>
                                       (case py_get (dict_get r ''filters'' (JObj []))
                                               ''from_date'' JNull of
                                          Inl e \<Rightarrow> Inl e
                                        | Inr fd \<Rightarrow>
                                            (case py_get (dict_get r ''filters'' (JObj []))
                                                    ''to_date'' JNull of
                                               Inl e \<Rightarrow> Inl e
                                             | Inr td \<Rightarrow>
                                                 Inr (JObj
                                                   [(''title'', dict_get rep ''title'' JNull),
                                                    (''group_by'', JStr (cols ! lab)),
                                                    (''from_date'', fd), (''to_date'', td),
                                                    (''rows'', JArr shaped),
                                                    (''raw'', JObj rep)])))))
                      | Inr other \<Rightarrow> Inr (JObj rep))
                   else Inr (JObj rep))))"

definition run_report_branch :: "env \<Rightarrow> pydict \<Rightarrow> tool_call list \<times> (pyerror + json)" where
  "run_report_branch ev r =
     (case tools ev ''run_report'' of
        None \<Rightarrow> ([], Inl AttributeError)
      | Some h \<Rightarrow>
          (case map_of r ''report_name'' of
             None \<Rightarrow> ([], Inl KeyError)
           | Some name \<Rightarrow>
               (let ps = [name, py_or (dict_get r ''filters'' JNull) (JObj [])];
                    c = Call ''run_report'' ps []
                in case h ps [] of
                     Inl e \<Rightarrow> ([c], Inl e)
                   | Inr (JObj rep) \<Rightarrow> ([c], shape_report r rep)
                   | Inr other \<Rightarrow> ([c], Inl AttributeError))))"

text \<open>The inventory branch: the handler is looked up before \<open>r["args"]\<close> is read.\<close>

definition inventory_branch :: "env \<Rightarrow> pydict \<Rightarrow> tool_call list \<times> (pyerror + json)" where
  "inventory_branch ev r =
     (case tools ev ''get_inventory_snapshot'' of
        None \<Rightarrow> ([], Inl AttributeError)
      | Some h \<Rightarrow>
          (case map_of r ''args'' of
             None \<Rightarrow> ([], Inl KeyError)
           | Some a \<Rightarrow>
               (case py_get a ''warehouse'' JNull of
                  Inl e \<Rightarrow> ([], Inl e)
                | Inr w \<Rightarrow>
                    (let c = Call ''get_inventory_snapshot'' [w] []
                     in case h [w] [] of
                          Inl e \<Rightarrow> ([c], Inl e)
                        | Inr snap \<Rightarrow>
                            (case py_get snap ''rows'' (JArr []) of
                               Inl e \<Rightarrow> ([c], Inl e)
                             | Inr rows \<Rightarrow>
                                 ([c],
                                  Inr (JObj [(''title'', JStr ''Inventory Snapshot''),
                                             (''columns'',
                                              JArr [JStr ''Warehouse'', JStr ''Item'', JStr ''Qty'']),
                                             (''rows'', rows), (''raw'', snap)])))))))"

text \<open>\<open>execute_routed(r)\<close>, with the list of calls it makes.\<close>

definition execute_routed :: "env \<Rightarrow> pydict \<Rightarrow> tool_call list \<times> (pyerror + json)" where
  "execute_routed ev r =
     (let action = dict_get r ''action'' JNull
      in if action = JStr ''rag'' then
           (case map_of r ''query'' of
              None \<Rightarrow> ([], Inl KeyError)
            | Some q \<Rightarrow>
                (case ask ev q of
                   (tr, Inl e) \<Rightarrow> (tr, Inl e)
                 | (tr, Inr ans) \<Rightarrow> (tr, answer_dict ''Documentation Answer'' ans)))
         else if action = JStr ''inventory_snapshot'' then inventory_branch ev r
         else if action = JStr ''sales_stats'' \<or> action = JStr ''purchase_stats'' then
           run_stats ev action r
         else if action = JStr ''run_report'' then run_report_branch ev r
         else
           (case ask ev (dict_get r ''query'' (JStr [])) of
              (tr, Inl e) \<Rightarrow> (tr, Inl e)
            | (tr, Inr ans) \<Rightarrow> (tr, answer_dict ''Answer'' ans)))"

subsection \<open>route\_and\_execute and smart\_execute\<close>

text \<open>\<open>r.get("args",{}).get(k) if r.get("args") else r.get("filters",{}).get(k)\<close>.\<close>

definition meta_of :: "pydict \<Rightarrow> string \<Rightarrow> pyerror + json" where
  "meta_of r k =
     (if truthy (dict_get r ''args'' JNull) then py_get (dict_get r ''args'' (JObj [])) k JNull
      else py_get (dict_get r ''filters'' (JObj [])) k JNull)"

text \<open>\<open>r.get("args",{}).get("by") or r.get("filters",{}).get("group_by")\<close>.\<close>

definition group_of :: "pydict \<Rightarrow> pyerror + json" where
  "group_of r =
     (case py_get (dict_get r ''args'' (JObj [])) ''by'' JNull of
        Inl e \<Rightarrow> Inl e
      | Inr b \<Rightarrow>
          if truthy b then Inr b
          else py_get (dict_get r ''filters'' (JObj [])) ''group_by'' JNull)"

text \<open>The three \<open>setdefault\<close> calls of \<open>route_and_execute\<close> on a dict result.\<close>

definition annotate :: "pydict \<Rightarrow> json \<Rightarrow> pyerror + json" where
  "annotate r out =
     (case out of
        JObj d \<Rightarrow>
          (case meta_of r ''from_date'' of
             Inl e \<Rightarrow> Inl e
           | Inr fd \<Rightarrow>
               (case meta_of r ''to_date'' of
                  Inl e \<Rightarrow> Inl e
                | Inr td \<Rightarrow>
                    (case group_of r of
                       Inl e \<Rightarrow> Inl e
                     | Inr gb \<Rightarrow>
                         (let d1 = setdefault (setdefault d ''from_date'' fd) ''to_date'' td
                          in Inr (JObj (if truthy gb then setdefault d1 ''group_by'' gb
                                        else d1))))))
      | _ \<Rightarrow> Inr out)"

definition route_and_execute :: "env \<Rightarrow> string \<Rightarrow> tool_call list \<times> (pyerror + json)" where
  "route_and_execute ev query =
     (case route (today ev) query of
        Inl e \<Rightarrow> ([], Inl e)
      | Inr r \<Rightarrow>
          (case execute_routed ev r of
             (tr, Inl e) \<Rightarrow> (tr, Inl e)
           | (tr, Inr out) \<Rightarrow> (tr, annotate r out)))"

text \<open>The plan \<open>smart_execute\<close> reports for an answer of the router.\<close>

definition auto_plan :: pydict where
  "auto_plan =
     [(''intent'', JStr ''auto''), (''steps'', JArr []), (''risks'', JArr []),
      (''confirm_required'', JBool False)]"

text \<open>\<open>smart_execute\<close>: the router's answer is returned when it has rows or a raw
  payload; otherwise the command goes to \<open>execute\<close>.\<close>

definition smart_execute ::
  "env \<Rightarrow> string \<Rightarrow> string \<Rightarrow> bool \<Rightarrow> string option \<Rightarrow> tool_call list \<times> (pyerror + exec_result)" where
  "smart_execute ev command_text user dry_run confirm_token =
     (case route_and_execute ev command_text of
        (tr, Inl e) \<Rightarrow> (tr, Inl e)
      | (tr, Inr routed) \<Rightarrow>
          (case routed of
             JObj d \<Rightarrow>
               if truthy (dict_get d ''rows'' JNull) \<or> truthy (dict_get d ''raw'' JNull)
               then (tr, Inr (Completed None auto_plan [Executed 1 (JStr ''router'') routed] None))
               else (case execute ev command_text user dry_run confirm_token of
                       (tr2, res) \<Rightarrow> (tr @ tr2, res))
           | _ \<Rightarrow>
               (case execute ev command_text user dry_run confirm_token of
                  (tr2, res) \<Rightarrow> (tr @ tr2, res))))"

section \<open>Notions of the specification\<close>

text \<open>
  The definitions of this section are not translations of source functions: they name
  what the statements below talk about.
\<close>

subsection \<open>Steps and outcomes\<close>

text \<open>A step as normalization leaves it: a dict with exactly the keys \<open>tool\<close> and
  \<open>args\<close>, whose tool is truthy (a string: non-empty).\<close>

definition normal_step :: "json \<Rightarrow> bool" where
  "normal_step j =
     (case j of
        JObj d \<Rightarrow> map fst d = [''tool'', ''args''] \<and> truthy (dict_get d ''tool'' JNull)
      | _ \<Rightarrow> False)"

text \<open>The tool and the arguments \<open>execute\<close> reads from a step.\<close>

definition step_tool_of :: "json \<Rightarrow> json" where
  "step_tool_of s = (case s of JObj d \<Rightarrow> dict_get d ''tool'' JNull | _ \<Rightarrow> JNull)"

definition step_args_of :: "json \<Rightarrow> json" where
  "step_args_of s =
     (case s of JObj d \<Rightarrow> py_or (dict_get d ''args'' (JObj [])) (JObj []) | _ \<Rightarrow> JObj [])"

text \<open>
  The read-only set of the specification: \<open>get_sales_stats\<close>, \<open>get_purchase_stats\<close>,
  \<open>get_inventory_snapshot\<close>, \<open>run_sql\<close> and \<open>run_report\<close>. It is written out here and not
  taken from the constant \<open>READ_ONLY_TOOLS\<close> of the code. A call of one of these tools, and
  a step whose tool is one of them.
\<close>

definition read_only_name :: "string \<Rightarrow> bool" where
  "read_only_name t =
     (t = ''get_sales_stats'' \<or> t = ''get_purchase_stats'' \<or> t = ''get_inventory_snapshot''
      \<or> t = ''run_sql'' \<or> t = ''run_report'')"

definition read_only_call :: "tool_call \<Rightarrow> bool" where
  "read_only_call c = read_only_name (call_name c)"










subsection \<open>The fast-path window\<close>

text \<open>The first day of the month eleven months before the month of \<open>d\<close>: with the
  month of \<open>d\<close> these are twelve calendar months. \<open>window_days\<close> is the number of days
  from a date to a later one.\<close>

definition window_start :: "date \<Rightarrow> date" where
  "window_start d =
     \<lparr>year = (if month d = 12 then year d else year d - 1),
      month = (if month d = 12 then 1 else month d + 1),
      day = 1\<rparr>"

definition window_days :: "date \<Rightarrow> date \<Rightarrow> int" where
  "window_days a b = toordinal b - toordinal a"

text \<open>An argument of the first step of a plan.\<close>

definition first_step_arg :: "pydict \<Rightarrow> string \<Rightarrow> json" where
  "first_step_arg plan k =
     (case dict_get plan ''steps'' (JArr []) of
        JArr (s # ss) \<Rightarrow> (case step_args_of s of JObj a \<Rightarrow> dict_get a k JNull | _ \<Rightarrow> JNull)
      | _ \<Rightarrow> JNull)"

subsection \<open>Tool names\<close>

text \<open>
  The twelve names the dispatch chain of \<open>execute\<close> knows (the catalog of
  \<open>PLANNER_SYSTEM\<close>); the seven of them that mutate (document type creation and update,
  workflow creation, query and script report creation, task creation, background job
  enqueue); and the six of these to which \<open>execute\<close> passes the idempotency key.
\<close>

definition KNOWN_TOOLS :: "string list" where
  "KNOWN_TOOLS =
     [''create_doctype'', ''update_doctype'', ''create_workflow'', ''create_query_report'',
      ''create_script_report'', ''run_report'', ''run_sql'', ''get_sales_stats'',
      ''get_purchase_stats'', ''get_inventory_snapshot'', ''create_task'',
      ''enqueue_background_job'']"

text \<open>A step whose tool is none of the twelve names, and the error payload recorded for
  it in a real run.\<close>

definition unknown_step :: "json \<Rightarrow> bool" where
  "unknown_step s = (step_tool_of s \<notin> set (map JStr KNOWN_TOOLS))"

definition unknown_tool_error :: "(json \<Rightarrow> string) \<Rightarrow> json \<Rightarrow> json" where
  "unknown_tool_error ps tool =
     JObj [(''error'', JStr (''unknown tool '' @ format_value ps tool))]"

text \<open>The outcome recorded for a step with an unknown tool: skipped in a dry run, the
  error payload in a real run. A call of one of the twelve tools.\<close>

definition unknown_outcome :: "(json \<Rightarrow> string) \<Rightarrow> bool \<Rightarrow> outcome \<Rightarrow> bool" where
  "unknown_outcome ps dry oc =
     (case oc of
        Skipped i t a \<Rightarrow> dry
      | Executed i t res \<Rightarrow> \<not> dry \<and> res = unknown_tool_error ps t)"

definition unknown_outcomes :: "(json \<Rightarrow> string) \<Rightarrow> bool \<Rightarrow> outcome list \<Rightarrow> bool" where
  "unknown_outcomes ps dry outs =
     list_all (\<lambda>oc. step_tool oc \<in> set (map JStr KNOWN_TOOLS) \<or> unknown_outcome ps dry oc) outs"

definition known_call :: "tool_call \<Rightarrow> bool" where
  "known_call c = (call_name c \<in> set KNOWN_TOOLS)"

definition MUTATING_TOOLS :: "string list" where
  "MUTATING_TOOLS =
     [''create_doctype'', ''update_doctype'', ''create_workflow'', ''create_query_report'',
      ''create_script_report'', ''create_task'', ''enqueue_background_job'']"

definition MUTATING_WITH_KEY :: "string list" where
  "MUTATING_WITH_KEY =
     [''create_doctype'', ''update_doctype'', ''create_workflow'', ''create_query_report'',
      ''create_script_report'', ''create_task'']"

definition mutating_call :: "tool_call \<Rightarrow> bool" where
  "mutating_call c = (call_name c \<in> set MUTATING_TOOLS)"

text \<open>The actions of a routing decision, and the names \<open>execute_routed\<close> calls: the
  documentation lookup and four read-only handlers.\<close>

definition ROUTER_ACTIONS :: "string list" where
  "ROUTER_ACTIONS =
     [''rag'', ''inventory_snapshot'', ''purchase_stats'', ''sales_stats'', ''run_report'']"

definition ROUTER_CALLS :: "string list" where
  "ROUTER_CALLS =
     [''answer_question'', ''get_inventory_snapshot'', ''get_purchase_stats'',
      ''get_sales_stats'', ''run_report'']"

definition router_call :: "tool_call \<Rightarrow> bool" where
  "router_call c = (call_name c \<in> set ROUTER_CALLS)"

section \<open>A concrete environment\<close>

text \<open>
  An environment for concrete runs. The completion backend answers with a text that
  \<open>json.loads\<close> reads as the plan \<open>plan_a\<close>: a structural change whose steps are a
  mutating step, a read-only step without arguments, an entry without a tool, a step with
  an unknown tool, a background job, and an entry that is not a dict. The module of the
  environment defines a handler for every name, and every handler returns a payload.
\<close>

definition plan_a :: json where
  "plan_a =
     JObj [(''intent'', JStr ''structural_change''),
           (''steps'', JArr
              [JObj [(''tool'', JStr ''create_doctype''),
                     (''args'', JObj [(''name'', JStr ''Feedback'')])],
               JObj [(''tool'', JStr ''get_sales_stats'')],
               JObj [(''args'', JObj [(''name'', JStr ''no tool'')])],
               JObj [(''tool'', JStr ''frobnicate''), (''args'', JNull)],
               JObj [(''tool'', JStr ''enqueue_background_job''),
                     (''args'', JObj [(''job'', JStr ''sync'')])],
               JStr ''not a step'']),
           (''risks'', JArr []),
           (''confirm_required'', JBool False)]"

text \<open>The steps that survive normalization, with the defaults filled in.\<close>

definition steps_a :: "json list" where
  "steps_a =
     [JObj [(''tool'', JStr ''create_doctype''), (''args'', JObj [(''name'', JStr ''Feedback'')])],
      JObj [(''tool'', JStr ''get_sales_stats''),
            (''args'', JObj [(''by'', JStr ''month''), (''from_date'', JStr ''2025-12-01''),
                             (''to_date'', JStr ''2026-11-03'')])],
      JObj [(''tool'', JStr ''frobnicate''), (''args'', JObj [])],
      JObj [(''tool'', JStr ''enqueue_background_job''),
            (''args'', JObj [(''job'', JStr ''sync'')])]]"

text \<open>The plan \<open>classify_and_plan\<close> makes of \<open>plan_a\<close>.\<close>

definition planned_a :: pydict where
  "planned_a =
     [(''intent'', JStr ''structural_change''), (''steps'', JArr steps_a),
      (''risks'', JArr []), (''confirm_required'', JBool False)]"

text \<open>The parser, the backend, the handlers and \<open>str()\<close> of the environment. No string
  is read as a float, and \<open>date.fromisoformat\<close> is the one of Python 3.10.\<close>

definition loads_a :: "string \<Rightarrow> json option" where
  "loads_a s = (if s = ''plan-a'' then Some plan_a else None)"

definition backend_a :: backend where
  "backend_a k = (0, Returns (Some ''plan-a''))"

definition payload_a :: "tool_call \<Rightarrow> json" where
  "payload_a c = JObj [(''done'', JStr (call_name c))]"

definition tools_a :: registry where
  "tools_a name = Some (\<lambda>pos kw. Inr (payload_a (Call name pos kw)))"

definition str_a :: "json \<Rightarrow> string" where
  "str_a j = (case j of JStr s \<Rightarrow> s | _ \<Rightarrow> ''?'')"

definition env_a :: env where
  "env_a =
     \<lparr>today = \<lparr>year = 2026, month = 11, day = 3\<rparr>, corr_uuid = ''c-1'', idem_uuid = ''k-1'',
      clock = 0, llm_backend = backend_a, tools = tools_a,
      docs_answer = (\<lambda>q. Inr (JObj [(''answer'', JStr ''see the manual''), (''sources'', JArr [])])),
      json_loads = loads_a, py_str = str_a, str_float = (\<lambda>s. None),
      date_fromisoformat = fromisoformat_ymd\<rparr>"

text \<open>The same environment with an unreachable completion backend.\<close>

definition env_down :: env where
  "env_down = env_a\<lparr>llm_backend := backend_down\<rparr>"

text \<open>A command that matches no fast path, and the calls and outcomes of its real run
  with a confirmation token.\<close>

definition command_a :: string where
  "command_a = ''add a feedback doctype''"

definition calls_a :: "tool_call list" where
  "calls_a =
     [Call ''create_doctype'' []
        [(''name'', JStr ''Feedback''), (''idempotency_key'', JStr ''k-1'')],
      Call ''get_sales_stats'' []
        [(''by'', JStr ''month''), (''from_date'', JStr ''2025-12-01''),
         (''to_date'', JStr ''2026-11-03'')],
      Call ''enqueue_background_job'' [] [(''job'', JStr ''sync'')]]"

definition outcomes_a :: "outcome list" where
  "outcomes_a =
     [Executed 1 (JStr ''create_doctype'') (JObj [(''done'', JStr ''create_doctype'')]),
      Executed 2 (JStr ''get_sales_stats'') (JObj [(''done'', JStr ''get_sales_stats'')]),
      Executed 3 (JStr ''frobnicate'') (JObj [(''error'', JStr ''unknown tool frobnicate'')]),
      Executed 4 (JStr ''enqueue_background_job'')
        (JObj [(''done'', JStr ''enqueue_background_job'')])]"

text \<open>A documentation question and the answer the router builds for it in \<open>env_a\<close>.\<close>

definition question_a :: string where
  "question_a = ''How do I post an invoice?''"

definition answer_a :: json where
  "answer_a =
     JObj [(''title'', JStr ''Documentation Answer''), (''columns'', JArr [JStr ''answer'']),
           (''rows'', JArr [JArr [JStr ''see the manual'']]),
           (''raw'', JObj [(''answer'', JStr ''see the manual''), (''sources'', JArr [])]),
           (''from_date'', JNull), (''to_date'', JNull)]"



text \<open>
  An environment whose completion backend answers with the plan \<open>plan_b\<close>: an analytics
  plan of ten steps, each with the tool \<open>frobnicate\<close>, which is no tool of the engine.
\<close>

definition raw_step_b :: json where
  "raw_step_b = JObj [(''tool'', JStr ''frobnicate'')]"

definition step_b :: json where
  "step_b = JObj [(''tool'', JStr ''frobnicate''), (''args'', JObj [])]"

definition plan_b :: json where
  "plan_b =
     JObj [(''intent'', JStr ''analytics''),
           (''steps'', JArr [raw_step_b, raw_step_b, raw_step_b, raw_step_b, raw_step_b,
                            raw_step_b, raw_step_b, raw_step_b, raw_step_b, raw_step_b]),
           (''risks'', JArr []),
           (''confirm_required'', JBool False)]"

definition steps_b :: "json list" where
  "steps_b = [step_b, step_b, step_b, step_b, step_b, step_b, step_b, step_b, step_b, step_b]"

definition first8_b :: "json list" where
  "first8_b = [step_b, step_b, step_b, step_b, step_b, step_b, step_b, step_b]"

definition planned_b :: pydict where
  "planned_b =
     [(''intent'', JStr ''analytics''), (''steps'', JArr steps_b),
      (''risks'', JArr []), (''confirm_required'', JBool False)]"

definition loads_b :: "string \<Rightarrow> json option" where
  "loads_b s = (if s = ''plan-b'' then Some plan_b else None)"

definition backend_b :: backend where
  "backend_b k = (0, Returns (Some ''plan-b''))"

definition env_b :: env where
  "env_b = env_a\<lparr>llm_backend := backend_b, json_loads := loads_b\<rparr>"

text \<open>The outcomes of a real run and of a dry run of \<open>planned_b\<close>: eight each.\<close>

definition unknown_b :: json where
  "unknown_b = JObj [(''error'', JStr ''unknown tool frobnicate'')]"

definition outcomes_b :: "outcome list" where
  "outcomes_b = map (\<lambda>i. Executed i (JStr ''frobnicate'') unknown_b) [1, 2, 3, 4, 5, 6, 7, 8]"

definition skipped_b :: "outcome list" where
  "skipped_b = map (\<lambda>i. Skipped i (JStr ''frobnicate'') (JObj [])) [1, 2, 3, 4, 5, 6, 7, 8]"

section \<open>Properties of the completion client\<close>

lemma check_circuit_calls: "calls (snd (check_circuit c)) = calls c"
  by (simp add: check_circuit_def Let_def)

lemma complete_once_calls_le:
  "calls (snd (complete_once b c)) \<le> Suc (calls c)"
  by (auto simp: complete_once_def check_circuit_def record_fail_def Let_def
      split: prod.splits sum.splits call_outcome.splits)

lemma sleep_calls: "calls (sleep d c) = calls c"
  by (simp add: sleep_def)

lemma complete_from_calls:
  "calls (snd (complete_from n b c)) \<le> calls c + max 1 (4 - n)"
proof (induction n b c rule: complete_from.induct)
  case (1 n b c)
  obtain r c' where oc: "complete_once b c = (r, c')" by (cases "complete_once b c")
  have le: "calls c' \<le> Suc (calls c)" using complete_once_calls_le [of b c] oc by simp
  show ?case
  proof (cases r)
    case (Inr s)
    then show ?thesis using oc le by (simp add: complete_from.simps [of n b c])
  next
    case (Inl e)
    show ?thesis
    proof (cases "retried_error e \<and> n < 3")
      case True
      then have eq: "complete_from n b c = complete_from (Suc n) b (sleep (backoff n) c')"
        using oc Inl by (simp add: complete_from.simps [of n b c])
      have ih: "calls (snd (complete_from (Suc n) b (sleep (backoff n) c')))
           \<le> calls (sleep (backoff n) c') + max 1 (4 - Suc n)"
        using "1.IH" [OF oc [symmetric] Inl True] .
      show ?thesis using ih le True unfolding eq sleep_calls by auto
    next
      case False
      then show ?thesis using oc Inl le by (auto simp add: complete_from.simps [of n b c])
    qed
  qed
qed

lemma backoff_bounds: "1 \<le> backoff n \<and> backoff n \<le> 10"
  by (simp add: backoff_def wait_exponential_def)

lemma complete_once_open:
  assumes "3 \<le> length (prune (now c) (fail_window c))"
    and "now c - last (prune (now c) (fail_window c)) < 30"
  shows "complete_once b c = (Inl CircuitBreaker, c\<lparr>fail_window := prune (now c) (fail_window c)\<rparr>)"
  using assms by (simp add: complete_once_def check_circuit_def Let_def)

lemma complete_once_closed:
  assumes "\<not> (3 \<le> length (prune (now c) (fail_window c))
          \<and> now c - last (prune (now c) (fail_window c)) < 30)"
  shows "calls (snd (complete_once b c)) = Suc (calls c)"
  using assms by (auto simp add: complete_once_def check_circuit_def Let_def record_fail_def
       split: prod.splits call_outcome.splits)

lemma complete_once_calls_ge: "calls c \<le> calls (snd (complete_once b c))"
  by (auto simp: complete_once_def check_circuit_def record_fail_def Let_def
      split: prod.splits sum.splits call_outcome.splits)

lemma complete_from_calls_mono: "calls c \<le> calls (snd (complete_from n b c))"
proof (induction n b c rule: complete_from.induct)
  case (1 n b c)
  obtain r c' where oc: "complete_once b c = (r, c')" by (cases "complete_once b c")
  have ge: "calls c \<le> calls c'" using complete_once_calls_ge [of c b] oc by simp
  show ?case
  proof (cases r)
    case (Inr s)
    then show ?thesis using oc ge by (simp add: complete_from.simps [of n b c])
  next
    case (Inl e)
    show ?thesis
    proof (cases "retried_error e \<and> n < 3")
      case True
      then have eq: "complete_from n b c = complete_from (Suc n) b (sleep (backoff n) c')"
        using oc Inl by (simp add: complete_from.simps [of n b c])
      have "calls (sleep (backoff n) c') \<le> calls (snd (complete_from (Suc n) b (sleep (backoff n) c')))"
        using "1.IH" [OF oc [symmetric] Inl True] .
      then show ?thesis using ge unfolding eq sleep_calls by simp
    next
      case False
      then show ?thesis using oc Inl ge by (auto simp add: complete_from.simps [of n b c])
    qed
  qed
qed

lemma complete_from_attempted:
  "calls (snd (complete_once b c)) \<le> calls (snd (complete_from n b c))"
proof -
  obtain r c' where oc: "complete_once b c = (r, c')" by (cases "complete_once b c")
  show ?thesis
  proof (cases "\<exists>e. r = Inl e \<and> retried_error e \<and> n < 3")
    case True
    then obtain e where e: "r = Inl e" "retried_error e" "n < 3" by blast
    then have "complete_from n b c = complete_from (Suc n) b (sleep (backoff n) c')"
      using oc by (simp add: complete_from.simps [of n b c])
    then show ?thesis
      using complete_from_calls_mono [of "sleep (backoff n) c'" "Suc n" b] oc
      by (simp add: sleep_calls)
  next
    case False
    then have "complete_from n b c = (r, c')"
      using oc by (cases r) (auto simp add: complete_from.simps [of n b c])
    then show ?thesis using oc by simp
  qed
qed

lemma complete_from_exhausted:
  "fst (complete_from n b c) = Inl e \<Longrightarrow> retried_error e \<Longrightarrow> n \<le> 3 \<Longrightarrow>
     calls (snd (complete_from n b c)) = calls c + (4 - n)"
proof (induction n b c rule: complete_from.induct)
  case (1 n b c)
  obtain r c' where oc: "complete_once b c = (r, c')" by (cases "complete_once b c")
  show ?case
  proof (cases r)
    case (Inr s)
    then show ?thesis using oc "1.prems" by (simp add: complete_from.simps [of n b c])
  next
    case (Inl e')
    have notcb: "e' \<noteq> CircuitBreaker \<Longrightarrow> calls c' = Suc (calls c)"
      using oc Inl by (auto simp: complete_once_def check_circuit_def record_fail_def Let_def
      split: prod.splits sum.splits call_outcome.splits if_splits)
    show ?thesis
    proof (cases "retried_error e' \<and> n < 3")
      case True
      then have eq: "complete_from n b c = complete_from (Suc n) b (sleep (backoff n) c')"
        using oc Inl by (simp add: complete_from.simps [of n b c])
      have "calls (snd (complete_from (Suc n) b (sleep (backoff n) c'))) = calls (sleep (backoff n) c') + (4 - Suc n)"
        using "1.IH" [OF oc [symmetric] Inl True] "1.prems" True unfolding eq by simp
      moreover have "calls c' = Suc (calls c)" using notcb True by (auto simp: retried_error_def)
      ultimately show ?thesis using True unfolding eq sleep_calls by arith
    next
      case False
      then have eq: "complete_from n b c = (Inl e', c')" using oc Inl by (auto simp add: complete_from.simps [of n b c])
      then have "e' = e" using "1.prems" by simp
      then have "n = 3" using False "1.prems" by simp
      moreover have "calls c' = Suc (calls c)" using notcb \<open>e' = e\<close> "1.prems" by (auto simp: retried_error_def)
      ultimately show ?thesis unfolding eq by simp
    qed
  qed
qed

lemma complete_unfold:
  "complete b c =
     (case complete_once b c of
        (Inr s, c') \<Rightarrow> (Inr s, c')
      | (Inl e, c') \<Rightarrow>
          if retried_error e then complete_from 2 b (sleep (backoff 1) c') else (Inl e, c'))"
  unfolding complete_def
  by (subst complete_from.simps) (simp add: numeral_2_eq_2 split: prod.splits sum.splits)

lemmas complete_from_numeral =
  complete_from.simps [of "Suc 0"] complete_from.simps [of "Suc (Suc 0)"]
  complete_from.simps [of "Suc (Suc (Suc 0))"] complete_from.simps [of 2] complete_from.simps [of 3]

lemmas client_eval =
  complete_def complete_from_numeral complete_once_def check_circuit_def record_fail_def
  retried_error_def recorded_error_def sleep_def backoff_def wait_exponential_def prune_def
  new_client_def backend_up_def backend_down_def backend_status_error_def

text \<open>
  Claim C6 (as amended). The next \<open>complete\<close> call is refused with the circuit-open error,
  without any request to the backend, exactly when at least three recorded failures are
  less than 90 seconds old and the most recent of them is less than 30 seconds old at the
  time of the call; in every other case the backend is attempted, in particular once all
  recorded failures are 90 seconds old or older (the window is then pruned to empty).
\<close>

theorem circuit_breaker_window:
  "(3 \<le> length (prune (now c) (fail_window c))
      \<and> now c - last (prune (now c) (fail_window c)) < 30
      \<longrightarrow> fst (complete b c) = Inl CircuitBreaker \<and> calls (snd (complete b c)) = calls c)
   \<and> (\<not> (3 \<le> length (prune (now c) (fail_window c))
           \<and> now c - last (prune (now c) (fail_window c)) < 30)
      \<longrightarrow> Suc (calls c) \<le> calls (snd (complete b c)))
   \<and> (list_all (\<lambda>t. 90 \<le> now c - t) (fail_window c)
      \<longrightarrow> prune (now c) (fail_window c) = [] \<and> Suc (calls c) \<le> calls (snd (complete b c)))"
proof (intro conjI impI)
  assume op: "3 \<le> length (prune (now c) (fail_window c))
      \<and> now c - last (prune (now c) (fail_window c)) < 30"
  then have "complete_once b c
      = (Inl CircuitBreaker, c\<lparr>fail_window := prune (now c) (fail_window c)\<rparr>)"
    by (simp add: complete_once_open)
  then have "complete b c = (Inl CircuitBreaker, c\<lparr>fail_window := prune (now c) (fail_window c)\<rparr>)"
    by (simp add: complete_unfold retried_error_def)
  then show "fst (complete b c) = Inl CircuitBreaker" and "calls (snd (complete b c)) = calls c"
    by simp_all
next
  assume "\<not> (3 \<le> length (prune (now c) (fail_window c))
           \<and> now c - last (prune (now c) (fail_window c)) < 30)"
  then have "calls (snd (complete_once b c)) = Suc (calls c)"
    by (rule complete_once_closed)
  then show "Suc (calls c) \<le> calls (snd (complete b c))"
    using complete_from_attempted [of b c 1] by (simp add: complete_def)
next
  assume aged: "list_all (\<lambda>t. 90 \<le> now c - t) (fail_window c)"
  then show empty: "prune (now c) (fail_window c) = []"
    by (auto simp: prune_def list_all_iff filter_empty_conv)
  then have "calls (snd (complete_once b c)) = Suc (calls c)"
    by (simp add: complete_once_closed)
  then show "Suc (calls c) \<le> calls (snd (complete b c))"
    using complete_from_attempted [of b c 1] by (simp add: complete_def)
qed

text \<open>The theorem at a client with three failures at seconds 0, 1, 2, called at seconds 20, 50 and 100.\<close>

theorem circuit_breaker_window_witness:
  "fst (complete backend_up \<lparr>fail_window = [0, 1, 2], now = 20, calls = 0\<rparr>) = Inl CircuitBreaker
   \<and> calls (snd (complete backend_up \<lparr>fail_window = [0, 1, 2], now = 20, calls = 0\<rparr>)) = 0
   \<and> 1 \<le> calls (snd (complete backend_up \<lparr>fail_window = [0, 1, 2], now = 50, calls = 0\<rparr>))
   \<and> 1 \<le> calls (snd (complete backend_up \<lparr>fail_window = [0, 1, 2], now = 100, calls = 0\<rparr>))"
  using circuit_breaker_window [of "\<lparr>fail_window = [0, 1, 2], now = 20, calls = 0\<rparr>" backend_up]
    circuit_breaker_window [of "\<lparr>fail_window = [0, 1, 2], now = 50, calls = 0\<rparr>" backend_up]
    circuit_breaker_window [of "\<lparr>fail_window = [0, 1, 2], now = 100, calls = 0\<rparr>" backend_up]
  by (simp add: prune_def)

text \<open>Three failures within 90 seconds, the last two one second apart, and yet a call at second 50
  reaches the backend: the last failure is 48 seconds old.\<close>

theorem circuit_burst_counterexample:
  "3 \<le> length (prune 50 [0, 1, 2])
   \<and> \<bar>last [0, 1, 2 :: real] - last (butlast [0, 1, 2])\<bar> < 30
   \<and> complete backend_up \<lparr>fail_window = [0, 1, 2], now = 50, calls = 0\<rparr>
       = (Inr (Some ''{}''), \<lparr>fail_window = [0, 1, 2], now = 50, calls = 1\<rparr>)"
  by (simp add: client_eval)

text \<open>
  Claim C7 (as amended). \<open>complete\<close> sends at most three requests; the wait between
  attempts lies between 1 and 10 seconds; a successful attempt returns at once; an error
  other than a connectivity or rate-limit error is raised at once, without a retry; a
  connectivity or rate-limit error of the first attempt is followed by a second attempt
  after the backoff; when the call ends with such an error, exactly three requests were
  sent; and every failed attempt (connectivity, rate-limit or status error), not only the
  last, appends its timestamp to the failure window.
\<close>

theorem complete_retry_policy:
  "calls (snd (complete b c)) \<le> calls c + 3
   \<and> 1 \<le> backoff n \<and> backoff n \<le> 10
   \<and> (complete_once b c = (Inr s, c') \<longrightarrow> complete b c = (Inr s, c'))
   \<and> (complete_once b c = (Inl e, c') \<and> \<not> retried_error e \<longrightarrow> complete b c = (Inl e, c'))
   \<and> (complete_once b c = (Inl e, c') \<and> retried_error e
        \<longrightarrow> complete b c = complete_from 2 b (sleep (backoff 1) c'))
   \<and> (fst (complete b c) = Inl e \<and> retried_error e
        \<longrightarrow> calls (snd (complete b c)) = calls c + 3)
   \<and> (check_circuit c = (Inr (), c1) \<and> b (calls c) = (d, Raises e) \<and> recorded_error e
        \<longrightarrow> fail_window (snd (complete_once b c)) = fail_window c1 @ [now c + d])"
proof (intro conjI impI)
  show "calls (snd (complete b c)) \<le> calls c + 3"
    using complete_from_calls [of 1 b c] by (simp add: complete_def)
  show "1 \<le> backoff n" and "backoff n \<le> 10"
    using backoff_bounds [of n] by simp_all
  show "complete b c = (Inr s, c')" if "complete_once b c = (Inr s, c')"
    using that by (simp add: complete_unfold)
  show "complete b c = (Inl e, c')" if "complete_once b c = (Inl e, c') \<and> \<not> retried_error e"
    using that by (simp add: complete_unfold)
  show "complete b c = complete_from 2 b (sleep (backoff 1) c')"
    if "complete_once b c = (Inl e, c') \<and> retried_error e"
    using that by (simp add: complete_unfold)
  show "calls (snd (complete b c)) = calls c + 3" if "fst (complete b c) = Inl e \<and> retried_error e"
    using that complete_from_exhausted [of 1 b c e] by (simp add: complete_def)
  show "fail_window (snd (complete_once b c)) = fail_window c1 @ [now c + d]"
    if "check_circuit c = (Inr (), c1) \<and> b (calls c) = (d, Raises e) \<and> recorded_error e"
  proof -
    have c1: "c1 = c\<lparr>fail_window := prune (now c) (fail_window c)\<rparr>"
      using that by (auto simp: check_circuit_def Let_def split: if_splits)
    show ?thesis
      using that by (simp add: complete_once_def c1 record_fail_def)
  qed
qed

text \<open>The theorem at a fresh client, for a status error, an unreachable backend and a healthy one.\<close>

theorem complete_retry_policy_witness:
  "complete backend_status_error (new_client 0)
     = (Inl APIStatusError, \<lparr>fail_window = [0], now = 0, calls = 1\<rparr>)
   \<and> calls (snd (complete backend_down (new_client 0))) = 3
   \<and> complete backend_up (new_client 0) = (Inr (Some ''{}''), \<lparr>fail_window = [], now = 0, calls = 1\<rparr>)
   \<and> fail_window (snd (complete_once backend_down (new_client 0))) = [0]"
  using complete_retry_policy [of backend_status_error "new_client 0" 1 "Some ''{}''"
       "\<lparr>fail_window = [0], now = 0, calls = 1\<rparr>" APIStatusError "new_client 0" 0]
    complete_retry_policy [of backend_down "new_client 0" 1 "Some ''{}''"
       "\<lparr>fail_window = [0], now = 0, calls = 1\<rparr>" APIConnectionError "new_client 0" 0]
    complete_retry_policy [of backend_up "new_client 0" 1 "Some ''{}''"
       "\<lparr>fail_window = [], now = 0, calls = 1\<rparr>" APIConnectionError "new_client 0" 0]
  by (simp add: client_eval)

text \<open>One exhausted call of a fresh client against an unreachable backend records three
  failures (at seconds 0, 1 and 3), not one.\<close>

theorem exhausted_call_records_counterexample:
  "complete backend_down (new_client 0)
     = (Inl APIConnectionError, \<lparr>fail_window = [0, 1, 3], now = 3, calls = 3\<rparr>)
   \<and> length (fail_window (snd (complete backend_down (new_client 0)))) \<noteq> 1"
  by (simp add: client_eval)

section \<open>Properties of the planner and the execution engine\<close>

lemma dict_get_dict_set: "dict_get (dict_set d k v) k dflt = v"
  by (induction d k v rule: dict_set.induct) (auto simp: dict_get_def)

lemma last_n_month_range_to:
  "last_n_month_range d n = Inr (f, t) \<Longrightarrow> t = isoformat d"
  by (auto simp: last_n_month_range_def split: sum.splits)

lemma analytics_plan_steps:
  "dict_get (analytics_plan grp f t risks) ''steps'' (JArr []) = JArr [sales_step grp f t]"
  by (simp add: analytics_plan_def dict_get_def)

lemma normal_sales_step: "normal_step (sales_step grp f t)"
  by (simp add: normal_step_def sales_step_def dict_get_def)

lemma fastpath_plan:
  assumes "fastpath d command = Inr (Some p)"
  shows "\<exists>grp f t risks. p = analytics_plan grp f t risks"
  using assms by (auto simp: fastpath_def Let_def split: if_splits sum.splits)

lemma fallback_plan_shape:
  assumes "fallback_plan d = Inr p"
  shows "\<exists>f t. p = analytics_plan ''month'' f t [''planner_fallback'']"
  using assms by (auto simp: fallback_plan_def split: sum.splits)

lemma tool_steps_truthy: "s \<in> set (tool_steps js) \<Longrightarrow> truthy (dict_get s ''tool'' JNull)"
  by (induction js rule: tool_steps.induct) (auto split: if_splits)

lemma normalize_step_normal:
  assumes "normalize_step f t s = Inr n" and "truthy (dict_get s ''tool'' JNull)"
  shows "normal_step n"
  using assms
  by (auto simp: normalize_step_def Let_def normal_step_def dict_get_def split: sum.splits if_splits)

lemma normalize_loop_normal:
  "normalize_loop f t ss = Inr ns \<Longrightarrow> list_all (\<lambda>s. truthy (dict_get s ''tool'' JNull)) ss
     \<Longrightarrow> list_all normal_step ns"
proof (induction ss arbitrary: ns)
  case Nil
  then show ?case by simp
next
  case (Cons s ss)
  then show ?case
    by (auto split: sum.splits dest: normalize_step_normal)
qed

lemma normalize_loop_length:
  "normalize_loop f t ss = Inr ns \<Longrightarrow> length ns = length ss"
  by (induction ss arbitrary: ns) (auto split: sum.splits)

lemma parse_plan_steps:
  assumes "parse_plan loads d raw = Inr p"
  shows "\<exists>ns. dict_get p ''steps'' (JArr []) = JArr ns \<and> list_all normal_step ns"
proof -
  from assms obtain plan js f t ns where
    p: "p = dict_set plan ''steps'' (JArr ns)" and
    n: "normalize_loop f t (tool_steps js) = Inr ns"
    by (auto simp: parse_plan_def normalize_steps_def
        split: option.splits json.splits if_splits sum.splits prod.splits)
  have "list_all (\<lambda>s. truthy (dict_get s ''tool'' JNull)) (tool_steps js)"
    by (simp add: list_all_iff tool_steps_truthy)
  with n have "list_all normal_step ns" by (rule normalize_loop_normal)
  then show ?thesis using p by (simp add: dict_get_dict_set)
qed

lemma classify_and_plan_steps:
  assumes "classify_and_plan loads d b llm command = (n, Inr p)"
  shows "\<exists>ns. dict_get p ''steps'' (JArr []) = JArr ns \<and> list_all normal_step ns"
proof (cases "fastpath d command")
  case (Inl e)
  then show ?thesis using assms by (simp add: classify_and_plan_def)
next
  case (Inr fp)
  show ?thesis
  proof (cases fp)
    case (Some fast)
    then have "p = fast" using assms Inr by (simp add: classify_and_plan_def)
    then show ?thesis
      using fastpath_plan [of d command p] Inr Some
      by (auto simp: analytics_plan_steps normal_sales_step)
  next
    case None
    obtain r llm' where c: "complete b llm = (r, llm')" by (cases "complete b llm")
    show ?thesis
    proof (cases r)
      case (Inl e)
      then show ?thesis using assms Inr None c by (simp add: classify_and_plan_def)
    next
      case raw: (Inr plan_raw)
      show ?thesis
      proof (cases "parse_plan loads d plan_raw")
        case (Inl e)
        then have "fallback_plan d = Inr p"
          using assms Inr None c raw by (simp add: classify_and_plan_def)
        then show ?thesis
          using fallback_plan_shape [of d p] by (auto simp: analytics_plan_steps normal_sales_step)
      next
        case ok: (Inr plan)
        then have "p = plan" using assms Inr None c raw by (simp add: classify_and_plan_def)
        then show ?thesis using parse_plan_steps [of loads d plan_raw p] ok by simp
      qed
    qed
  qed
qed

lemma plan_for_steps:
  assumes "plan_for ev command = (n, Inr p)"
  shows "\<exists>steps. plan_steps p = Inr steps \<and> length steps \<le> 8 \<and> list_all normal_step steps"
proof -
  from assms obtain ns where ns: "dict_get p ''steps'' (JArr []) = JArr ns" "list_all normal_step ns"
    unfolding plan_for_def using classify_and_plan_steps by blast
  then have "plan_steps p = Inr (take 8 ns)" by (simp add: plan_steps_def)
  moreover have "list_all normal_step (take 8 ns)"
    using ns(2) by (auto simp: list_all_iff dest: in_set_takeD)
  ultimately show ?thesis by simp
qed

lemma call_kwargs_trace:
  "(tr, r) = call_kwargs reg name args idem \<Longrightarrow> c \<in> set tr \<Longrightarrow> name = call_name c"
  by (auto simp: call_kwargs_def split: json.splits option.splits if_splits)

lemma dispatch_trace:
  "dispatch reg ps idem tool args = (tr, r) \<Longrightarrow> c \<in> set tr \<Longrightarrow> tool = JStr (call_name c)"
  unfolding dispatch_def
  by (auto split: if_splits prod.splits dest: call_kwargs_trace call_kwargs_trace [OF sym])

lemma read_only_name_iff: "t \<in> set READ_ONLY_TOOLS \<longleftrightarrow> read_only_name t"
  by (auto simp: READ_ONLY_TOOLS_def read_only_name_def)

lemma run_step_dry_trace:
  assumes "run_step reg ps idem True idx s = (tr, r)" and "c \<in> set tr"
  shows "read_only_call c"
proof -
  from assms obtain tool a tr' r' where
    t: "not_read_only tool = Inr False" and
    d: "dispatch reg ps idem tool (py_or a (JObj [])) = (tr', r')" "c \<in> set tr'"
    by (auto simp: run_step_def Let_def split: sum.splits bool.splits prod.splits)
  from d have "tool = JStr (call_name c)" by (rule dispatch_trace)
  with t have "call_name c \<in> set READ_ONLY_TOOLS"
    by (auto simp: not_read_only_def split: if_splits)
  then show ?thesis by (simp add: read_only_call_def read_only_name_iff)
qed

lemma run_steps_dry_trace:
  "list_all read_only_call (fst (run_steps reg ps idem True idx steps))"
proof (induction steps arbitrary: idx)
  case Nil
  then show ?case by simp
next
  case (Cons s ss)
  have a: "list_all read_only_call (fst (run_step reg ps idem True idx s))"
    using run_step_dry_trace [of reg ps idem idx s] by (cases "run_step reg ps idem True idx s") (auto simp: list_all_iff)
  have b: "list_all read_only_call (fst (run_steps reg ps idem True (Suc idx) ss))"
    by (rule Cons.IH)
  show ?case using a b
    by (auto split: prod.splits sum.splits)
qed

lemma JStr_mem: "JStr t \<in> set (map JStr xs) \<longleftrightarrow> t \<in> set xs"
  by auto





lemma run_step_outcome:
  assumes "run_step reg ps idem dry idx s = (tr, Inr oc)"
  shows "step_no oc = idx \<and> step_tool oc = step_tool_of s"
  using assms
  by (auto simp: run_step_def Let_def py_get_def step_tool_of_def
      split: sum.splits bool.splits prod.splits json.splits)

lemma run_steps_outcomes:
  "run_steps reg ps idem dry idx steps = (tr, Inr ocs) \<Longrightarrow>
     map step_no ocs = [idx..<idx + length steps] \<and> map step_tool ocs = map step_tool_of steps"
proof (induction steps arbitrary: idx tr ocs)
  case Nil
  then show ?case by simp
next
  case (Cons s ss)
  from Cons.prems obtain tr1 oc tr2 ocs' where
    a: "run_step reg ps idem dry idx s = (tr1, Inr oc)" and
    b: "run_steps reg ps idem dry (Suc idx) ss = (tr2, Inr ocs')" and
    c: "ocs = oc # ocs'"
    by (auto split: prod.splits sum.splits)
  have upt: "[idx..<idx + length (s # ss)] = idx # [Suc idx..<Suc idx + length ss]"
    by (subst upt_rec) simp
  show ?case
    unfolding upt using run_step_outcome [OF a] Cons.IH [OF b] c by simp
qed

lemma days_in_month_ge: "28 \<le> days_in_month y m"
  by (simp add: days_in_month_def)

lemma last_n_month_range_12:
  assumes "valid_date d" and "2 \<le> year d"
  shows "last_n_month_range d 12 = Inr (isoformat (window_start d), isoformat d)"
proof -
  have first: "replace_day d 1 = Inr \<lparr>year = year d, month = month d, day = 1\<rparr>"
    using assms(1) days_in_month_ge [of "year d" "month d"]
    by (simp add: replace_day_def date_ctor_def valid_date_def)
  have m: "1 \<le> month d" "month d \<le> 12" using assms(1) by (simp_all add: valid_date_def)
  have y: "year d \<le> 9999" using assms(1) by (simp add: valid_date_def)
  show ?thesis
  proof (cases "month d = 12")
    case True
    then have "add_months \<lparr>year = year d, month = month d, day = 1\<rparr> (- (12 - 1))
        = Inr (window_start d)"
      using assms(2) y
      by (simp add: add_months_def date_ctor_def valid_date_def window_start_def
          days_in_month_def)
    then show ?thesis by (simp add: last_n_month_range_def first)
  next
    case False
    then have lt: "month d < 12" using m by simp
    have dv: "(month d - 1 + - (12 - 1)) div 12 = - 1"
      using m lt by (simp add: div_eq_minus1) 
    have md: "(month d - 1 + - (12 - 1)) mod 12 = month d"
      using m lt by (simp add: mod_pos_neg_trivial)
    have "add_months \<lparr>year = year d, month = month d, day = 1\<rparr> (- (12 - 1))
        = Inr (window_start d)"
      using assms(2) y m lt False days_in_month_ge [of "year d - 1" "month d + 1"]
      unfolding add_months_def Let_def date.simps dv md
      by (simp add: date_ctor_def valid_date_def window_start_def)
    then show ?thesis by (simp add: last_n_month_range_def first)
  qed
qed

lemma fastpath_a: "fastpath \<lparr>year = 2026, month = 11, day = 3\<rparr> command_a = Inr None"
  by code_simp

lemma range_a: "last_n_month_range \<lparr>year = 2026, month = 11, day = 3\<rparr> 12 = Inr (''2025-12-01'', ''2026-11-03'')"
  by code_simp

lemma complete_a: "complete backend_a (new_client 0) = (Inr (Some ''plan-a''), \<lparr>fail_window = [], now = 0, calls = 1\<rparr>)"
  by (simp add: client_eval backend_a_def)

lemma parse_a: "parse_plan loads_a \<lparr>year = 2026, month = 11, day = 3\<rparr> (Some ''plan-a'') = Inr planned_a"
  by (simp add: parse_plan_def loads_a_def plan_a_def has_key_def dict_get_def py_iter_def
      normalize_steps_def range_a normalize_step_def args_copy_def py_or_def stats_defaults_def
      setdefault_def planned_a_def steps_a_def)

lemma plan_for_a: "plan_for env_a command_a = (1, Inr planned_a)"
  by (simp add: plan_for_def env_a_def classify_and_plan_def fastpath_a complete_a parse_a)

lemma complete_down: "complete backend_down (new_client 0)
     = (Inl APIConnectionError, \<lparr>fail_window = [0, 1, 3], now = 3, calls = 3\<rparr>)"
  by (simp add: client_eval)

lemma plan_for_down: "plan_for env_down command_a = (3, Inl APIConnectionError)"
  by (simp add: plan_for_def env_down_def env_a_def classify_and_plan_def fastpath_a complete_down)

lemma plan_steps_a: "plan_steps planned_a = Inr steps_a"
  by (simp add: plan_steps_def planned_a_def dict_get_def steps_a_def)

lemma confirm_needed_a: "confirm_needed planned_a = Inr True"
  by (simp add: confirm_needed_def planned_a_def dict_get_def)

lemma env_a_fields:
  "today env_a = \<lparr>year = 2026, month = 11, day = 3\<rparr>" "corr_uuid env_a = ''c-1''"
  "idem_uuid env_a = ''k-1''" "clock env_a = 0" "llm_backend env_a = backend_a"
  "tools env_a = tools_a" "json_loads env_a = loads_a"
  "docs_answer env_a = (\<lambda>q. Inr (JObj [(''answer'', JStr ''see the manual''), (''sources'', JArr [])]))" "py_str env_a = str_a"
  "str_float env_a = (\<lambda>s. None)" "date_fromisoformat env_a = fromisoformat_ymd"
  by (simp_all add: env_a_def)

lemma env_down_fields:
  "today env_down = \<lparr>year = 2026, month = 11, day = 3\<rparr>" "clock env_down = 0"
  "llm_backend env_down = backend_down"
  by (simp_all add: env_down_def env_a_def)

lemma confirm_needed_true:
  assumes "truthy (dict_get plan ''confirm_required'' JNull)
     \<or> dict_get plan ''intent'' (JStr ''analytics'') = JStr ''structural_change''"
  shows "confirm_needed plan = Inr True"
  using assms by (auto simp: confirm_needed_def Let_def)

lemma execute_plan_gate:
  assumes "plan_steps plan = Inr steps" and "confirm_needed plan = Inr True"
    and "no_token confirm_token"
  shows "execute_plan ev False confirm_token plan
           = ([], Inr (AwaitingConfirmation (corr_uuid ev) plan))"
  using assms by (simp add: execute_plan_def)

lemma execute_dry_trace:
  "list_all read_only_call (fst (execute ev command_text user True confirm_token))"
proof (cases "snd (plan_for ev command_text)")
  case (Inl e)
  then show ?thesis by (simp add: execute_def)
next
  case (Inr plan)
  have "list_all read_only_call (fst (execute_plan ev True confirm_token plan))"
  proof (cases "plan_steps plan")
    case (Inl e)
    then show ?thesis by (simp add: execute_plan_def)
  next
    case steps: (Inr steps)
    show ?thesis
    proof (cases "confirm_needed plan")
      case (Inl e)
      then show ?thesis using steps by (simp add: execute_plan_def)
    next
      case (Inr needed)
      obtain tr r where rs:
        "run_steps (tools ev) (py_str ev) (idem_uuid ev) True 1 steps = (tr, r)"
        by (cases "run_steps (tools ev) (py_str ev) (idem_uuid ev) True 1 steps")
      have "list_all read_only_call tr"
        using run_steps_dry_trace [of "tools ev" "py_str ev" "idem_uuid ev" 1 steps] rs by simp
      then show ?thesis
        using steps Inr rs by (simp add: execute_plan_def split: sum.splits)
    qed
  qed
  then show ?thesis using Inr by (simp add: execute_def)
qed

text \<open>
  Claim C1. When the plan obtained for a command requires confirmation (its
  \<open>confirm_required\<close> is true, or its intent is \<open>structural_change\<close>), no confirmation
  token is supplied (\<open>None\<close> or the empty string) and \<open>dry_run\<close> is false, \<open>execute\<close>
  returns \<open>awaiting_confirmation\<close> with the correlation id and the plan, and the list of
  tool calls it made is empty.
\<close>

theorem awaiting_confirmation_no_tool_call:
  assumes "plan_for ev command_text = (n, Inr plan)"
    and "truthy (dict_get plan ''confirm_required'' JNull)
         \<or> dict_get plan ''intent'' (JStr ''analytics'') = JStr ''structural_change''"
    and "no_token confirm_token"
  shows "execute ev command_text user False confirm_token
           = ([], Inr (AwaitingConfirmation (corr_uuid ev) plan))"
proof -
  obtain steps where "plan_steps plan = Inr steps"
    using plan_for_steps [OF assms(1)] by blast
  then have "execute_plan ev False confirm_token plan
           = ([], Inr (AwaitingConfirmation (corr_uuid ev) plan))"
    using confirm_needed_true [OF assms(2)] assms(3) by (rule execute_plan_gate)
  then show ?thesis using assms(1) by (simp add: execute_def)
qed

text \<open>The theorem at \<open>env_a\<close>: the planner's plan is a structural change, the token is empty.\<close>

theorem awaiting_confirmation_witness:
  "plan_for env_a command_a = (1, Inr planned_a)
   \<and> dict_get planned_a ''intent'' (JStr ''analytics'') = JStr ''structural_change''
   \<and> no_token (Some [])
   \<and> execute env_a command_a ''admin'' False (Some [])
        = ([], Inr (AwaitingConfirmation ''c-1'' planned_a))"
proof -
  have i: "dict_get planned_a ''intent'' (JStr ''analytics'') = JStr ''structural_change''"
    by (simp add: planned_a_def dict_get_def)
  have t: "no_token (Some [])" by (simp add: no_token_def)
  have "execute env_a command_a ''admin'' False (Some [])
        = ([], Inr (AwaitingConfirmation (corr_uuid env_a) planned_a))"
    using awaiting_confirmation_no_tool_call [OF plan_for_a _ t] i by blast
  then show ?thesis using i t plan_for_a by (simp add: env_a_def)
qed

text \<open>
  Claim C4 (as amended). For a plan whose intent is \<open>structural_change\<close>, the confirmation
  flag \<open>confirm_needed\<close> computed by \<open>execute\<close> is true whatever \<open>confirm_required\<close> holds;
  the field \<open>confirm_required\<close> of the plan is not rewritten (the plan is returned as
  \<open>classify_and_plan\<close> made it). Such a plan is gated: without a confirmation token, a
  real run stops at \<open>awaiting_confirmation\<close> with no tool call, and a dry run calls
  read-only tools only.
\<close>

theorem structural_change_forces_confirmation:
  assumes "dict_get plan ''intent'' (JStr ''analytics'') = JStr ''structural_change''"
  shows "confirm_needed plan = Inr True
     \<and> (plan_for ev command_text = (n, Inr plan) \<and> no_token confirm_token
          \<longrightarrow> execute ev command_text user False confirm_token
                = ([], Inr (AwaitingConfirmation (corr_uuid ev) plan))
              \<and> list_all read_only_call (fst (execute ev command_text user True confirm_token)))"
proof (intro conjI impI)
  show "confirm_needed plan = Inr True"
    using assms by (simp add: confirm_needed_true)
  assume h: "plan_for ev command_text = (n, Inr plan) \<and> no_token confirm_token"
  then obtain steps where "plan_steps plan = Inr steps"
    using plan_for_steps [of ev command_text n plan] by blast
  then have "execute_plan ev False confirm_token plan
           = ([], Inr (AwaitingConfirmation (corr_uuid ev) plan))"
    using assms h by (intro execute_plan_gate) (simp_all add: confirm_needed_true)
  then show "execute ev command_text user False confirm_token
                = ([], Inr (AwaitingConfirmation (corr_uuid ev) plan))"
    using h by (simp add: execute_def)
  show "list_all read_only_call (fst (execute ev command_text user True confirm_token))"
    by (rule execute_dry_trace)
qed

text \<open>The theorem at \<open>planned_a\<close>, whose \<open>confirm_required\<close> is false.\<close>

theorem structural_change_witness:
  "dict_get planned_a ''confirm_required'' JNull = JBool False
   \<and> confirm_needed planned_a = Inr True
   \<and> execute env_a command_a ''admin'' False None
        = ([], Inr (AwaitingConfirmation ''c-1'' planned_a))"
proof -
  have i: "dict_get planned_a ''intent'' (JStr ''analytics'') = JStr ''structural_change''"
    by (simp add: planned_a_def dict_get_def)
  have c: "dict_get planned_a ''confirm_required'' JNull = JBool False"
    by (simp add: planned_a_def dict_get_def)
  have t: "no_token None" by (simp add: no_token_def)
  show ?thesis
    using structural_change_forces_confirmation [OF i, of env_a command_a 1 None "''admin''"]
      plan_for_a t c
    by (simp add: env_a_def)
qed

text \<open>
  The claim as it was stated fails: the completion backend returns a plan with intent
  \<open>structural_change\<close> and \<open>confirm_required\<close> false, and the plan \<open>execute\<close> returns with
  \<open>awaiting_confirmation\<close> still has \<open>confirm_required\<close> false.
\<close>

theorem confirm_required_not_forced_counterexample:
  "plan_for env_a command_a = (1, Inr planned_a)
   \<and> dict_get planned_a ''intent'' (JStr ''analytics'') = JStr ''structural_change''
   \<and> execute env_a command_a ''admin'' False None
        = ([], Inr (AwaitingConfirmation ''c-1'' planned_a))
   \<and> dict_get planned_a ''confirm_required'' JNull = JBool False
   \<and> \<not> truthy (dict_get planned_a ''confirm_required'' JNull)"
proof -
  have g: "execute_plan env_a False None planned_a
      = ([], Inr (AwaitingConfirmation (corr_uuid env_a) planned_a))"
    by (rule execute_plan_gate) (simp_all add: plan_steps_a confirm_needed_a no_token_def)
  have e: "execute env_a command_a ''admin'' False None
      = ([], Inr (AwaitingConfirmation ''c-1'' planned_a))"
    by (simp add: execute_def plan_for_a g env_a_fields)
  show ?thesis
    using e plan_for_a by (simp add: planned_a_def dict_get_def)
qed








lemma dispatch_unknown:
  assumes "tool \<notin> set (map JStr KNOWN_TOOLS)"
  shows "dispatch reg ps idem tool args
           = ([], Inr (JObj [(''error'', JStr (''unknown tool '' @ format_value ps tool))]))"
  using assms by (simp add: dispatch_def KNOWN_TOOLS_def)

lemma normal_step_tool: "normal_step s \<Longrightarrow> truthy (step_tool_of s)"
  by (auto simp: normal_step_def step_tool_of_def split: json.splits)

lemma execute_outcomes:
  assumes "execute ev command_text user dry_run confirm_token
             = (tr, Inr (Completed cid p outs sm))"
  shows "snd (plan_for ev command_text) = Inr p \<and> length outs \<le> 8
     \<and> list_all truthy (map step_tool outs)"
proof -
  from assms obtain plan where plan: "snd (plan_for ev command_text) = Inr plan"
    and ex: "execute_plan ev dry_run confirm_token plan = (tr, Inr (Completed cid p outs sm))"
    by (auto simp: execute_def split: sum.splits)
  obtain n where "plan_for ev command_text = (n, Inr plan)"
    using plan by (cases "plan_for ev command_text") simp
  then obtain steps where steps: "plan_steps plan = Inr steps" "length steps \<le> 8"
    "list_all normal_step steps"
    using plan_for_steps by blast
  from ex steps(1) obtain tr' where
    run: "run_steps (tools ev) (py_str ev) (idem_uuid ev) dry_run 1 steps = (tr', Inr outs)"
    and p: "p = plan"
    by (auto simp: execute_plan_def split: sum.splits if_splits prod.splits)
  have m: "map step_no outs = [1..<1 + length steps]" "map step_tool outs = map step_tool_of steps"
    using run_steps_outcomes [OF run] by simp_all
  have "length outs = length steps"
    using m(2) by (metis length_map)
  moreover have "list_all truthy (map step_tool_of steps)"
    using steps(3) by (auto simp: list_all_iff normal_step_tool)
  ultimately show ?thesis using steps(2) m(2) plan p by simp
qed

lemma plan_for_all_steps:
  assumes "plan_for ev command = (n, Inr p)"
  shows "\<exists>ns. dict_get p ''steps'' (JArr []) = JArr ns \<and> list_all normal_step ns
            \<and> plan_steps p = Inr (take 8 ns)"
proof -
  from assms obtain ns where ns: "dict_get p ''steps'' (JArr []) = JArr ns" "list_all normal_step ns"
    unfolding plan_for_def using classify_and_plan_steps by blast
  then have "plan_steps p = Inr (take 8 ns)" by (simp add: plan_steps_def)
  with ns show ?thesis by simp
qed

lemma run_step_unknown:
  assumes "normal_step s" and "unknown_step s"
  shows "run_step reg ps idem False idx s
           = ([], Inr (Executed idx (step_tool_of s) (unknown_tool_error ps (step_tool_of s))))"
proof -
  from assms(1) obtain d where s: "s = JObj d"
    by (auto simp: normal_step_def split: json.splits)
  have u: "dict_get d ''tool'' JNull \<notin> set (map JStr KNOWN_TOOLS)"
    using assms(2) s by (simp add: unknown_step_def step_tool_of_def)
  show ?thesis
    unfolding s run_step_def
    by (simp add: py_get_def step_tool_of_def dispatch_unknown [OF u] unknown_tool_error_def)
qed

lemma known_read_only: "t \<in> set READ_ONLY_TOOLS \<Longrightarrow> t \<in> set KNOWN_TOOLS"
  by (auto simp: READ_ONLY_TOOLS_def KNOWN_TOOLS_def)

lemma run_step_unknown_dry:
  assumes "normal_step s" and "unknown_step s" and "hashable (step_tool_of s)"
  shows "run_step reg ps idem True idx s
           = ([], Inr (Skipped idx (step_tool_of s) (step_args_of s)))"
proof -
  from assms(1) obtain d where s: "s = JObj d"
    by (auto simp: normal_step_def split: json.splits)
  have u: "dict_get d ''tool'' JNull \<notin> set (map JStr KNOWN_TOOLS)"
    using assms(2) s by (simp add: unknown_step_def step_tool_of_def)
  then have "dict_get d ''tool'' JNull \<notin> set (map JStr READ_ONLY_TOOLS)"
    using known_read_only by auto
  then have n: "not_read_only (dict_get d ''tool'' JNull) = Inr True"
    using assms(3) s by (simp add: not_read_only_def step_tool_of_def)
  show ?thesis
    unfolding s run_step_def
    by (simp add: py_get_def step_tool_of_def step_args_of_def n)
qed

lemma dispatch_known_trace:
  assumes "dispatch reg ps idem tool args = (tr, r)" and "c \<in> set tr"
  shows "known_call c"
proof (rule ccontr)
  assume n: "\<not> known_call c"
  have t: "tool = JStr (call_name c)" using assms by (rule dispatch_trace)
  then have "tool \<notin> set (map JStr KNOWN_TOOLS)"
    using n by (auto simp: known_call_def)
  then have "tr = []" using assms(1) by (simp add: dispatch_unknown)
  then show False using assms(2) by simp
qed

lemma run_step_known_trace:
  assumes "run_step reg ps idem dry idx s = (tr, r)" and "c \<in> set tr"
  shows "known_call c"
proof -
  from assms obtain tool a tr' r' where
    d: "dispatch reg ps idem tool (py_or a (JObj [])) = (tr', r')" "c \<in> set tr'"
    by (auto simp: run_step_def Let_def split: sum.splits bool.splits prod.splits if_splits)
  then show ?thesis by (rule dispatch_known_trace)
qed

lemma run_steps_known_trace:
  "list_all known_call (fst (run_steps reg ps idem dry idx steps))"
proof (induction steps arbitrary: idx)
  case Nil
  then show ?case by simp
next
  case (Cons s ss)
  have a: "list_all known_call (fst (run_step reg ps idem dry idx s))"
    using run_step_known_trace [of reg ps idem dry idx s]
    by (cases "run_step reg ps idem dry idx s") (auto simp: list_all_iff)
  have b: "list_all known_call (fst (run_steps reg ps idem dry (Suc idx) ss))"
    by (rule Cons.IH)
  show ?case using a b
    by (auto split: prod.splits sum.splits)
qed

lemma execute_known_trace:
  "list_all known_call (fst (execute ev command_text user dry_run confirm_token))"
proof (cases "snd (plan_for ev command_text)")
  case (Inl e)
  then show ?thesis by (simp add: execute_def)
next
  case (Inr plan)
  have "list_all known_call (fst (execute_plan ev dry_run confirm_token plan))"
  proof (cases "plan_steps plan")
    case (Inl e)
    then show ?thesis by (simp add: execute_plan_def)
  next
    case steps: (Inr steps)
    show ?thesis
    proof (cases "confirm_needed plan")
      case (Inl e)
      then show ?thesis using steps by (simp add: execute_plan_def)
    next
      case (Inr needed)
      obtain tr r where rs:
        "run_steps (tools ev) (py_str ev) (idem_uuid ev) dry_run 1 steps = (tr, r)"
        by (cases "run_steps (tools ev) (py_str ev) (idem_uuid ev) dry_run 1 steps")
      have "list_all known_call tr"
        using run_steps_known_trace [of "tools ev" "py_str ev" "idem_uuid ev" dry_run 1 steps] rs
        by simp
      then show ?thesis
        using steps Inr rs by (simp add: execute_plan_def split: sum.splits)
    qed
  qed
  then show ?thesis using Inr by (simp add: execute_def)
qed

lemma run_step_unknown_outcome:
  assumes "run_step reg ps idem dry idx s = (tr, Inr oc)"
    and "step_tool oc \<notin> set (map JStr KNOWN_TOOLS)"
  shows "unknown_outcome ps dry oc"
proof -
  from assms(1) obtain tool a where
    g: "py_get s ''tool'' JNull = Inr tool" "py_get s ''args'' (JObj []) = Inr a"
    by (auto simp: run_step_def split: sum.splits)
  have t: "step_tool oc = tool"
    using assms(1) g
    by (auto simp: run_step_def Let_def split: sum.splits bool.splits prod.splits if_splits)
  have u: "tool \<notin> set (map JStr KNOWN_TOOLS)" using assms(2) t by simp
  then have nr: "tool \<notin> set (map JStr READ_ONLY_TOOLS)"
    using known_read_only by auto
  show ?thesis
  proof (cases dry)
    case True
    have "not_read_only tool = Inr True \<or> not_read_only tool = Inl TypeError"
      using nr by (simp add: not_read_only_def)
    then show ?thesis
      using assms(1) g True
      by (auto simp: run_step_def Let_def unknown_outcome_def)
  next
    case False
    then show ?thesis
      using assms(1) g
      by (auto simp: run_step_def Let_def unknown_outcome_def dispatch_unknown [OF u]
          unknown_tool_error_def)
  qed
qed

lemma run_steps_unknown_outcomes:
  "run_steps reg ps idem dry idx steps = (tr, Inr ocs) \<Longrightarrow> unknown_outcomes ps dry ocs"
proof (induction steps arbitrary: idx tr ocs)
  case Nil
  then show ?case by (simp add: unknown_outcomes_def)
next
  case (Cons s ss)
  from Cons.prems obtain tr1 oc tr2 ocs' where
    a: "run_step reg ps idem dry idx s = (tr1, Inr oc)" and
    b: "run_steps reg ps idem dry (Suc idx) ss = (tr2, Inr ocs')" and
    c: "ocs = oc # ocs'"
    by (auto split: prod.splits sum.splits)
  show ?case
    using run_step_unknown_outcome [OF a] Cons.IH [OF b] c
    by (auto simp: unknown_outcomes_def)
qed

lemma execute_unknown_outcomes:
  assumes "execute ev command_text user dry_run confirm_token
             = (tr, Inr (Completed cid p outs sm))"
  shows "unknown_outcomes (py_str ev) dry_run outs"
proof -
  from assms obtain plan where
    ex: "execute_plan ev dry_run confirm_token plan = (tr, Inr (Completed cid p outs sm))"
    by (auto simp: execute_def split: sum.splits)
  then obtain steps tr' where
    "run_steps (tools ev) (py_str ev) (idem_uuid ev) dry_run 1 steps = (tr', Inr outs)"
    by (auto simp: execute_plan_def split: sum.splits if_splits prod.splits)
  then show ?thesis by (rule run_steps_unknown_outcomes)
qed

text \<open>
  Claim C5 (as amended). For every plan \<open>classify_and_plan\<close> returns, each step of the plan
  is a dict \<open>{tool, args}\<close> whose tool is non-empty (truthy): entries that are no dict or
  lack a tool were dropped. The plan itself can have more than 8 steps; \<open>execute\<close> takes
  the first 8, so a completed execution has at most 8 outcomes, each for a non-empty
  tool, and it returns the plan as it is. The tool need not be a recognized name. Every
  tool call of \<open>execute\<close> is a call of one of the twelve tools, and in a completed
  execution every outcome for an unrecognized tool is the skipped outcome in a dry run and
  the outcome with the \<open>unknown tool\<close> error payload in a real run. Step by step: a step
  with an unrecognized tool is recorded so, without any tool call, in a real run, and in a
  dry run when the tool can be hashed.
\<close>

theorem normalized_steps_bounded:
  "(plan_for ev command_text = (n, Inr plan)
      \<longrightarrow> (\<exists>ns. dict_get plan ''steps'' (JArr []) = JArr ns \<and> list_all normal_step ns
                \<and> plan_steps plan = Inr (take 8 ns)))
   \<and> list_all known_call (fst (execute ev command_text user dry_run confirm_token))
   \<and> (execute ev command_text user dry_run confirm_token = (tr, Inr (Completed cid p outs sm))
      \<longrightarrow> snd (plan_for ev command_text) = Inr p \<and> length outs \<le> 8
          \<and> list_all truthy (map step_tool outs)
          \<and> unknown_outcomes (py_str ev) dry_run outs)
   \<and> (normal_step s \<and> unknown_step s
      \<longrightarrow> run_step reg ps idem False idx s
            = ([], Inr (Executed idx (step_tool_of s)
                         (JObj [(''error'',
                                 JStr (''unknown tool '' @ format_value ps (step_tool_of s)))])))
          \<and> (hashable (step_tool_of s)
               \<longrightarrow> run_step reg ps idem True idx s
                     = ([], Inr (Skipped idx (step_tool_of s) (step_args_of s)))))"
proof (intro conjI impI)
  assume "plan_for ev command_text = (n, Inr plan)"
  then show "\<exists>ns. dict_get plan ''steps'' (JArr []) = JArr ns \<and> list_all normal_step ns
                \<and> plan_steps plan = Inr (take 8 ns)"
    by (rule plan_for_all_steps)
next
  show "list_all known_call (fst (execute ev command_text user dry_run confirm_token))"
    by (rule execute_known_trace)
next
  assume e: "execute ev command_text user dry_run confirm_token
            = (tr, Inr (Completed cid p outs sm))"
  then have "snd (plan_for ev command_text) = Inr p \<and> length outs \<le> 8
     \<and> list_all truthy (map step_tool outs)"
    by (rule execute_outcomes)
  then show "snd (plan_for ev command_text) = Inr p" and "length outs \<le> 8"
    and "list_all truthy (map step_tool outs)" by simp_all
  from e show "unknown_outcomes (py_str ev) dry_run outs"
    by (rule execute_unknown_outcomes)
next
  assume h: "normal_step s \<and> unknown_step s"
  then show "run_step reg ps idem False idx s
            = ([], Inr (Executed idx (step_tool_of s)
                         (JObj [(''error'',
                                 JStr (''unknown tool '' @ format_value ps (step_tool_of s)))])))"
    using run_step_unknown [of s reg ps idem idx] by (simp add: unknown_tool_error_def)
  assume "hashable (step_tool_of s)"
  with h show "run_step reg ps idem True idx s
                     = ([], Inr (Skipped idx (step_tool_of s) (step_args_of s)))"
    by (simp add: run_step_unknown_dry)
qed

lemma execute_a:
  "execute env_a command_a ''admin'' False (Some ''yes'')
     = (calls_a, Inr (Completed (Some ''c-1'') planned_a outcomes_a None))"
proof -
  have run: "run_steps tools_a str_a ''k-1'' False (Suc 0) steps_a
     = (calls_a, Inr outcomes_a)"
    by (simp add: steps_a_def run_step_def py_get_def dict_get_def py_or_def dispatch_def
        call_kwargs_def tools_a_def has_key_def payload_a_def format_value_def calls_a_def
        outcomes_a_def)
  have sm: "summarize (\<lambda>s. None) outcomes_a = Inr None"
    by (simp add: summary_of_def py_or_def py_get_def dict_get_def outcomes_a_def)
  have "execute_plan env_a False (Some ''yes'') planned_a
      = (calls_a, Inr (Completed (Some ''c-1'') planned_a outcomes_a None))"
    unfolding execute_plan_def plan_steps_a confirm_needed_a
    by (simp add: env_a_fields no_token_def run sm)
  then show ?thesis by (simp add: execute_def plan_for_a)
qed

lemma env_b_fields:
  "today env_b = \<lparr>year = 2026, month = 11, day = 3\<rparr>" "corr_uuid env_b = ''c-1''"
  "idem_uuid env_b = ''k-1''" "clock env_b = 0" "llm_backend env_b = backend_b"
  "tools env_b = tools_a" "json_loads env_b = loads_b" "py_str env_b = str_a"
  "str_float env_b = (\<lambda>s. None)"
  by (simp_all add: env_b_def env_a_def)

lemma complete_b: "complete backend_b (new_client 0) = (Inr (Some ''plan-b''), \<lparr>fail_window = [], now = 0, calls = 1\<rparr>)"
  by (simp add: client_eval backend_b_def)

lemma normalize_b: "normalize_step ''2025-12-01'' ''2026-11-03'' [(''tool'', JStr ''frobnicate'')] = Inr step_b"
  by (simp add: normalize_step_def dict_get_def args_copy_def py_or_def step_b_def)

lemma parse_b: "parse_plan loads_b \<lparr>year = 2026, month = 11, day = 3\<rparr> (Some ''plan-b'') = Inr planned_b"
  by (simp add: parse_plan_def loads_b_def plan_b_def has_key_def dict_get_def py_iter_def
      normalize_steps_def range_a raw_step_b_def normalize_b planned_b_def steps_b_def)

lemma plan_for_b: "plan_for env_b command_a = (1, Inr planned_b)"
  by (simp add: plan_for_def env_b_fields classify_and_plan_def fastpath_a complete_b parse_b)

lemma steps_of_b: "dict_get planned_b ''steps'' (JArr []) = JArr steps_b"
  by (simp add: planned_b_def dict_get_def)

lemma take_steps_b: "take 8 steps_b = first8_b"
  by (simp add: steps_b_def first8_b_def)

lemma plan_steps_b: "plan_steps planned_b = Inr first8_b"
  by (simp add: plan_steps_def steps_of_b take_steps_b)

lemma confirm_needed_b: "confirm_needed planned_b = Inr False"
  by (simp add: confirm_needed_def planned_b_def dict_get_def)

lemma frobnicate_unknown: "''frobnicate'' \<notin> set KNOWN_TOOLS"
  by (simp add: KNOWN_TOOLS_def)

lemma step_b_facts:
  "normal_step step_b" "unknown_step step_b" "step_tool_of step_b = JStr ''frobnicate''"
  "step_args_of step_b = JObj []"
  by (simp_all add: step_b_def normal_step_def unknown_step_def step_tool_of_def step_args_of_def
      dict_get_def py_or_def KNOWN_TOOLS_def)

lemma run_step_b:
  "run_step reg str_a idem False idx step_b
     = ([], Inr (Executed idx (JStr ''frobnicate'') unknown_b))"
  "run_step reg str_a idem True idx step_b = ([], Inr (Skipped idx (JStr ''frobnicate'') (JObj [])))"
  using run_step_unknown [OF step_b_facts(1,2), of reg str_a idem idx]
    run_step_unknown_dry [OF step_b_facts(1,2), of reg str_a idem idx]
  by (simp_all add: step_b_facts unknown_tool_error_def format_value_def unknown_b_def)

lemma execute_b:
  "execute env_b command_a ''admin'' False None
     = ([], Inr (Completed (Some ''c-1'') planned_b outcomes_b None))"
  "execute env_b command_a ''admin'' True None
     = ([], Inr (Completed (Some ''c-1'') planned_b skipped_b None))"
proof -
  have sm: "summarize (\<lambda>s. None) outcomes_b = Inr None" "summarize (\<lambda>s. None) skipped_b = Inr None"
    by (simp_all add: summary_of_def outcomes_b_def skipped_b_def)
  have run: "run_steps tools_a str_a ''k-1'' False (Suc 0) first8_b = ([], Inr outcomes_b)"
    "run_steps tools_a str_a ''k-1'' True (Suc 0) first8_b = ([], Inr skipped_b)"
    by (simp_all add: first8_b_def run_step_b outcomes_b_def skipped_b_def)
  have "execute_plan env_b False None planned_b
      = ([], Inr (Completed (Some ''c-1'') planned_b outcomes_b None))"
    unfolding execute_plan_def plan_steps_b confirm_needed_b
    by (simp add: env_b_fields run sm)
  moreover have "execute_plan env_b True None planned_b
      = ([], Inr (Completed (Some ''c-1'') planned_b skipped_b None))"
    unfolding execute_plan_def plan_steps_b confirm_needed_b
    by (simp add: env_b_fields run sm)
  ultimately show "execute env_b command_a ''admin'' False None
     = ([], Inr (Completed (Some ''c-1'') planned_b outcomes_b None))"
    "execute env_b command_a ''admin'' True None
     = ([], Inr (Completed (Some ''c-1'') planned_b skipped_b None))"
    by (simp_all add: execute_def plan_for_b)
qed

text \<open>The theorem at \<open>env_b\<close>: ten steps in the plan, eight outcomes, and the step with
  the tool \<open>frobnicate\<close> in a real run and in a dry run.\<close>

theorem normalized_steps_witness:
  "plan_for env_b command_a = (1, Inr planned_b)
   \<and> list_all normal_step steps_b
   \<and> plan_steps planned_b = Inr (take 8 steps_b)
   \<and> length outcomes_b \<le> 8 \<and> list_all truthy (map step_tool outcomes_b)
   \<and> unknown_outcomes str_a False outcomes_b
   \<and> normal_step step_b \<and> unknown_step step_b \<and> hashable (step_tool_of step_b)
   \<and> run_step tools_a str_a ''k-1'' False 1 step_b
       = ([], Inr (Executed 1 (JStr ''frobnicate'')
                    (JObj [(''error'', JStr ''unknown tool frobnicate'')])))
   \<and> run_step tools_a str_a ''k-1'' True 1 step_b
       = ([], Inr (Skipped 1 (JStr ''frobnicate'') (JObj [])))"
  using normalized_steps_bounded [of env_b command_a 1 planned_b "''admin''" False None
      "[]" "Some ''c-1''" planned_b outcomes_b None step_b tools_a str_a "''k-1''" 1]
    plan_for_b execute_b(1) step_b_facts
  by (simp add: steps_of_b format_value_def str_a_def env_b_fields)

text \<open>
  The claim as it was stated fails: the plan made for the command has ten steps, all with
  the tool \<open>frobnicate\<close>, which is none of the twelve tools of the engine. The execution
  returns this plan, with eight outcomes: the \<open>unknown tool\<close> error in a real run, the
  skipped outcome in a dry run.
\<close>

theorem unrecognized_tool_counterexample:
  "plan_for env_b command_a = (1, Inr planned_b)
   \<and> dict_get planned_b ''steps'' (JArr []) = JArr steps_b
   \<and> length steps_b = 10
   \<and> step_tool_of (steps_b ! 0) = JStr ''frobnicate''
   \<and> ''frobnicate'' \<notin> set KNOWN_TOOLS
   \<and> execute env_b command_a ''admin'' False None
       = ([], Inr (Completed (Some ''c-1'') planned_b outcomes_b None))
   \<and> execute env_b command_a ''admin'' True None
       = ([], Inr (Completed (Some ''c-1'') planned_b skipped_b None))
   \<and> length outcomes_b = 8 \<and> length skipped_b = 8
   \<and> outcomes_b ! 0 = Executed 1 (JStr ''frobnicate'')
                         (JObj [(''error'', JStr ''unknown tool frobnicate'')])
   \<and> skipped_b ! 0 = Skipped 1 (JStr ''frobnicate'') (JObj [])"
  by (simp add: plan_for_b steps_of_b execute_b frobnicate_unknown)
    (simp add: steps_b_def step_b_facts outcomes_b_def skipped_b_def unknown_b_def)

text \<open>
  Claim C8, the failing run. The plan \<open>planned_a\<close> is executed with a confirmation token:
  \<open>create_doctype\<close> receives the idempotency key of the command, the read-only
  \<open>get_sales_stats\<close> does not, and neither does the mutating \<open>enqueue_background_job\<close>
  (lemmas \<open>dispatch_mutating\<close> and \<open>dispatch_enqueue\<close> say so for all arguments).
\<close>

theorem enqueue_job_without_idempotency_key:
  "fst (execute env_a command_a ''admin'' False (Some ''yes''))
     = [Call ''create_doctype'' []
           [(''name'', JStr ''Feedback''), (''idempotency_key'', JStr (idem_uuid env_a))],
         Call ''get_sales_stats'' []
           [(''by'', JStr ''month''), (''from_date'', JStr ''2025-12-01''),
            (''to_date'', JStr ''2026-11-03'')],
         Call ''enqueue_background_job'' [] [(''job'', JStr ''sync'')]]
   \<and> \<not> has_key [(''job'', JStr ''sync'')] ''idempotency_key''"
  by (simp add: execute_a env_a_fields has_key_def calls_a_def)

text \<open>
  Claim C2, the failing run. The command matches no fast path and the completion
  backend is unreachable: after three attempts \<open>complete\<close> raises the connectivity error,
  and \<open>classify_and_plan\<close> and \<open>execute\<close> raise it too instead of returning the fallback
  plan. (Lemma \<open>parse_failure_falls_back\<close>: every failure inside the \<open>try\<close> block does
  give the fallback plan.)
\<close>

theorem backend_failure_propagates:
  "fastpath (today env_down) command_a = Inr None
   \<and> complete (llm_backend env_down) (new_client (clock env_down))
       = (Inl APIConnectionError, \<lparr>fail_window = [0, 1, 3], now = 3, calls = 3\<rparr>)
   \<and> plan_for env_down command_a = (3, Inl APIConnectionError)
   \<and> execute env_down command_a ''admin'' True None = ([], Inl APIConnectionError)"
  by (simp add: plan_for_down execute_def env_down_fields fastpath_a complete_down)

lemma mutating_cases:
  assumes "t \<in> set MUTATING_WITH_KEY"
  shows "t = ''create_doctype'' \<or> t = ''update_doctype'' \<or> t = ''create_workflow''
    \<or> t = ''create_query_report'' \<or> t = ''create_script_report'' \<or> t = ''create_task''"
  using assms by (auto simp: MUTATING_WITH_KEY_def)

lemma dispatch_mutating:
  assumes "t \<in> set MUTATING_WITH_KEY" and "\<not> has_key d ''idempotency_key''"
    and "reg t = Some h"
  shows "dispatch reg ps idem (JStr t) (JObj d)
           = ([Call t [] (d @ [(''idempotency_key'', JStr idem)])],
              h [] (d @ [(''idempotency_key'', JStr idem)]))"
  using mutating_cases [OF assms(1)]
proof (elim disjE)
  assume 1: "t = ''create_doctype''"
  show ?thesis using assms(2,3) unfolding 1 by (simp add: dispatch_def call_kwargs_def)
next
  assume 2: "t = ''update_doctype''"
  show ?thesis using assms(2,3) unfolding 2 by (simp add: dispatch_def call_kwargs_def)
next
  assume 3: "t = ''create_workflow''"
  show ?thesis using assms(2,3) unfolding 3 by (simp add: dispatch_def call_kwargs_def)
next
  assume 4: "t = ''create_query_report''"
  show ?thesis using assms(2,3) unfolding 4 by (simp add: dispatch_def call_kwargs_def)
next
  assume 5: "t = ''create_script_report''"
  show ?thesis using assms(2,3) unfolding 5 by (simp add: dispatch_def call_kwargs_def)
next
  assume 6: "t = ''create_task''"
  show ?thesis using assms(2,3) unfolding 6 by (simp add: dispatch_def call_kwargs_def)
qed

lemma dispatch_enqueue:
  assumes "reg ''enqueue_background_job'' = Some h"
  shows "dispatch reg ps idem (JStr ''enqueue_background_job'') (JObj d)
     = ([Call ''enqueue_background_job'' [] d], h [] d)"
  using assms by (simp add: dispatch_def call_kwargs_def)

lemma parse_failure_falls_back:
  assumes "fastpath d command = Inr None"
    and "complete b llm = (Inr plan_raw, llm')"
    and "parse_plan loads d plan_raw = Inl e"
  shows "classify_and_plan loads d b llm command = (calls llm', fallback_plan d)"
  using assms by (simp add: classify_and_plan_def)

lemma backend_failure_not_caught:
  assumes "fastpath d command = Inr None"
    and "complete b llm = (Inl e, llm')"
  shows "classify_and_plan loads d b llm command = (calls llm', Inl e)"
  using assms by (simp add: classify_and_plan_def)

lemma fallback_plan_valid:
  assumes "valid_date d" and "2 \<le> year d"
  shows "fallback_plan d
     = Inr (analytics_plan ''month'' (isoformat (window_start d)) (isoformat d)
              [''planner_fallback''])"
  using assms by (simp add: fallback_plan_def last_n_month_range_12)

text \<open>
  Claim C9 (as amended). On a valid current date after year 1, a command that matches a
  fast path gets its plan without any request to the completion backend: one
  \<open>get_sales_stats\<close> step from the first day of the month eleven months before the current
  month to today, \<open>confirm_required\<close> false. The phrasings are tried in this order: the
  plan is grouped by month when the command matches the best-selling-month phrasing;
  otherwise by customer when it contains \<open>top customers\<close>; otherwise by item when it
  contains \<open>top items\<close> or \<open>best sellers\<close>.
\<close>

theorem fastpath_plans:
  assumes "valid_date (today ev)" and "2 \<le> year (today ev)"
  shows
   "(is_best_month (strip (lower command_text))
       \<longrightarrow> plan_for ev command_text
            = (0, Inr (analytics_plan ''month'' (isoformat (window_start (today ev)))
                         (isoformat (today ev))
                         [''Assumes last 12 months; adjust if needed.''])))
    \<and> (\<not> is_best_month (strip (lower command_text)) \<and> is_top_customers (strip (lower command_text))
       \<longrightarrow> plan_for ev command_text
            = (0, Inr (analytics_plan ''customer'' (isoformat (window_start (today ev)))
                         (isoformat (today ev)) [])))
    \<and> (\<not> is_best_month (strip (lower command_text))
        \<and> \<not> is_top_customers (strip (lower command_text))
        \<and> is_top_items (strip (lower command_text))
       \<longrightarrow> plan_for ev command_text
            = (0, Inr (analytics_plan ''item'' (isoformat (window_start (today ev)))
                         (isoformat (today ev)) [])))
    \<and> first_step_arg (analytics_plan grp f t risks) ''by'' = JStr grp
    \<and> first_step_arg (analytics_plan grp f t risks) ''from_date'' = JStr f
    \<and> first_step_arg (analytics_plan grp f t risks) ''to_date'' = JStr t
    \<and> plan_steps (analytics_plan grp f t risks) = Inr [sales_step grp f t]
    \<and> step_tool_of (sales_step grp f t) = JStr ''get_sales_stats''
    \<and> confirm_needed (analytics_plan grp f t risks) = Inr False"
proof -
  have r: "last_n_month_range (today ev) 12
      = Inr (isoformat (window_start (today ev)), isoformat (today ev))"
    using assms by (rule last_n_month_range_12)
  have a: "first_step_arg (analytics_plan grp f t risks) ''by'' = JStr grp"
    "first_step_arg (analytics_plan grp f t risks) ''from_date'' = JStr f"
    "first_step_arg (analytics_plan grp f t risks) ''to_date'' = JStr t"
    by (simp_all add: first_step_arg_def analytics_plan_def sales_step_def dict_get_def
        step_args_of_def py_or_def)
  have p: "plan_steps (analytics_plan grp f t risks) = Inr [sales_step grp f t]"
    by (simp add: plan_steps_def analytics_plan_steps)
  have s: "step_tool_of (sales_step grp f t) = JStr ''get_sales_stats''"
    by (simp add: step_tool_of_def sales_step_def dict_get_def)
  have c: "confirm_needed (analytics_plan grp f t risks) = Inr False"
    by (simp add: confirm_needed_def analytics_plan_def dict_get_def)
  show ?thesis
    unfolding a p s c
    by (simp add: plan_for_def classify_and_plan_def fastpath_def r new_client_def)
qed

text \<open>The theorem at a best-selling-month question and at a question that contains
  \<open>top customers\<close> and also matches the best-selling-month pattern, with the backend
  unreachable.\<close>

theorem fastpath_plans_witness:
  "is_best_month (strip (lower ''What was our BEST selling month?''))
   \<and> plan_for env_down ''What was our BEST selling month?''
       = (0, Inr (analytics_plan ''month'' ''2025-12-01'' ''2026-11-03''
                    [''Assumes last 12 months; adjust if needed.'']))
   \<and> is_top_customers (strip (lower ''top customers by sales per month''))
   \<and> is_best_month (strip (lower ''top customers by sales per month''))
   \<and> plan_for env_down ''top customers by sales per month''
       = (0, Inr (analytics_plan ''month'' ''2025-12-01'' ''2026-11-03''
                    [''Assumes last 12 months; adjust if needed.'']))"
proof -
  have m: "is_best_month (strip (lower ''What was our BEST selling month?''))"
    by code_simp
  have m2: "is_best_month (strip (lower ''top customers by sales per month''))"
    by code_simp
  have c2: "is_top_customers (strip (lower ''top customers by sales per month''))"
    by code_simp
  have v: "valid_date (today env_down)" "2 \<le> year (today env_down)"
    by (simp_all add: env_down_fields valid_date_def days_in_month_def)
  have w: "isoformat (window_start (today env_down)) = ''2025-12-01''"
    "isoformat (today env_down) = ''2026-11-03''"
    unfolding env_down_fields by code_simp+
  show ?thesis
    using fastpath_plans [OF v, of "''What was our BEST selling month?''"]
      fastpath_plans [OF v, of "''top customers by sales per month''"] m m2 c2
    unfolding w by simp
qed

text \<open>
  The claim as it was stated fails on 2026-11-03 for the command \<open>Top customers\<close>: the
  plan groups by customer, not by month, and its window starts on 2025-12-01, 337 days
  before today, while twelve months before today is 2025-11-03, 365 days before.
\<close>

theorem top_customers_counterexample:
  "is_top_customers (strip (lower ''Top customers''))
   \<and> fastpath \<lparr>year = 2026, month = 11, day = 3\<rparr> ''Top customers''
       = Inr (Some (analytics_plan ''customer'' ''2025-12-01'' ''2026-11-03'' []))
   \<and> first_step_arg (analytics_plan ''customer'' ''2025-12-01'' ''2026-11-03'' []) ''by''
       = JStr ''customer''
   \<and> JStr ''customer'' \<noteq> JStr ''month''
   \<and> first_step_arg (analytics_plan ''customer'' ''2025-12-01'' ''2026-11-03'' []) ''from_date''
       = JStr ''2025-12-01''
   \<and> add_months \<lparr>year = 2026, month = 11, day = 3\<rparr> (- 12)
       = Inr \<lparr>year = 2025, month = 11, day = 3\<rparr>
   \<and> isoformat \<lparr>year = 2025, month = 11, day = 3\<rparr> = ''2025-11-03''
   \<and> window_days \<lparr>year = 2025, month = 12, day = 1\<rparr> \<lparr>year = 2026, month = 11, day = 3\<rparr> = 337
   \<and> window_days \<lparr>year = 2025, month = 11, day = 3\<rparr> \<lparr>year = 2026, month = 11, day = 3\<rparr> = 365"
proof -
  have a: "is_top_customers (strip (lower ''Top customers''))" by code_simp
  have b: "\<not> is_best_month (strip (lower ''Top customers''))" by code_simp
  have c: "first_step_arg (analytics_plan ''customer'' ''2025-12-01'' ''2026-11-03'' []) ''by''
       = JStr ''customer''"
    "first_step_arg (analytics_plan ''customer'' ''2025-12-01'' ''2026-11-03'' []) ''from_date''
       = JStr ''2025-12-01''"
    by (simp_all add: first_step_arg_def analytics_plan_def sales_step_def dict_get_def
        step_args_of_def py_or_def)
  have d: "add_months \<lparr>year = 2026, month = 11, day = 3\<rparr> (- 12)
       = Inr \<lparr>year = 2025, month = 11, day = 3\<rparr>"
    by code_simp
  have e: "isoformat \<lparr>year = 2025, month = 11, day = 3\<rparr> = ''2025-11-03''"
    by code_simp
  have f: "window_days \<lparr>year = 2025, month = 12, day = 1\<rparr> \<lparr>year = 2026, month = 11, day = 3\<rparr> = 337"
    "window_days \<lparr>year = 2025, month = 11, day = 3\<rparr> \<lparr>year = 2026, month = 11, day = 3\<rparr> = 365"
    by code_simp+
  show ?thesis using a b c d e f by (simp add: fastpath_def range_a)
qed

section \<open>Properties of the router\<close>

lemma router_call_not_mutating: "router_call c \<Longrightarrow> \<not> mutating_call c"
  by (auto simp: router_call_def mutating_call_def ROUTER_CALLS_def MUTATING_TOOLS_def)

lemma route_action:
  assumes "route d q = Inr r"
  shows "dict_get r ''action'' JNull \<in> set (map JStr ROUTER_ACTIONS)"
proof (cases "is_docs_question (strip q)")
  case True
  then have "r = [(''intent'', JStr ''doc_help''), (''action'', JStr ''rag''),
                  (''query'', JStr (strip q))]"
    using assms by (simp add: route_def Let_def)
  then show ?thesis by (simp add: dict_get_def ROUTER_ACTIONS_def)
next
  case False
  show ?thesis
  proof (cases "parse_date_range d (strip q)")
    case (Inl e)
    then show ?thesis using assms False by (simp add: route_def Let_def)
  next
    case (Inr p)
    obtain f t l where p: "p = (f, t, l)" by (cases p)
    show ?thesis
      using assms False Inr p
      by (auto simp: route_def Let_def dict_get_def ROUTER_ACTIONS_def split: if_split_asm)
  qed
qed

lemma ask_trace: "list_all router_call (fst (ask ev q))"
  by (simp add: ask_def router_call_def ROUTER_CALLS_def)

lemma getter_call:
  "router_call (Call (if action = JStr ''sales_stats'' then ''get_sales_stats''
                      else ''get_purchase_stats'') ps kw)"
  by (simp add: router_call_def ROUTER_CALLS_def)

lemma run_stats_trace:
  "list_all router_call (fst (run_stats ev action r))"
proof (cases "map_of r ''args''")
  case None
  then show ?thesis by (simp add: run_stats_def)
next
  case (Some a)
  show ?thesis
  proof (cases "\<exists>d. a = JObj d")
    case False
    then show ?thesis using Some by (cases a) (simp_all add: run_stats_def)
  next
    case True
    then obtain d where a: "a = JObj d" by blast
    show ?thesis
    proof (cases "map_of d ''by''")
      case None
      then show ?thesis using Some a by (simp add: run_stats_def)
    next
      case bk: (Some b)
      define name where "name = (if action = JStr ''sales_stats'' then ''get_sales_stats''
                              else ''get_purchase_stats'')"
      have g: "router_call (Call name ps kw)" for ps kw
        unfolding name_def by (rule getter_call)
      show ?thesis
      proof (cases "tools ev name")
        case None
        then show ?thesis
          using Some a bk unfolding run_stats_def Let_def name_def [symmetric] by simp
      next
        case getter: (Some getter)
        show ?thesis
          using Some a bk getter
          unfolding run_stats_def Let_def name_def [symmetric]
          by (auto simp: g split: sum.splits json.splits option.splits prod.splits)
      qed
    qed
  qed
qed

lemma run_report_trace:
  "list_all router_call (fst (run_report_branch ev r))"
proof (cases "tools ev ''run_report''")
  case None
  then show ?thesis by (simp add: run_report_branch_def)
next
  case h: (Some h)
  show ?thesis
  proof (cases "map_of r ''report_name''")
    case None
    then show ?thesis using h by (simp add: run_report_branch_def)
  next
    case (Some name)
    have c: "router_call (Call ''run_report'' ps kw)" for ps kw
      by (simp add: router_call_def ROUTER_CALLS_def)
    show ?thesis
      using Some h unfolding run_report_branch_def Let_def
      by (auto simp: c split: sum.splits json.splits)
  qed
qed

lemma inventory_call: "router_call (Call ''get_inventory_snapshot'' ps kw)"
  by (simp add: router_call_def ROUTER_CALLS_def)

lemma inventory_trace:
  "list_all router_call (fst (inventory_branch ev r))"
  unfolding inventory_branch_def
  by (auto simp: inventory_call Let_def split: option.splits sum.splits)

lemma execute_routed_trace:
  "list_all router_call (fst (execute_routed ev r))"
proof -
  define action where "action = dict_get r ''action'' JNull"
  consider (rag) "action = JStr ''rag''"
    | (inv) "action \<noteq> JStr ''rag''" "action = JStr ''inventory_snapshot''"
    | (stats) "action \<noteq> JStr ''rag''" "action \<noteq> JStr ''inventory_snapshot''"
        "action = JStr ''sales_stats'' \<or> action = JStr ''purchase_stats''"
    | (report) "action \<noteq> JStr ''rag''" "action \<noteq> JStr ''inventory_snapshot''"
        "\<not> (action = JStr ''sales_stats'' \<or> action = JStr ''purchase_stats'')"
        "action = JStr ''run_report''"
    | (other) "action \<noteq> JStr ''rag''" "action \<noteq> JStr ''inventory_snapshot''"
        "\<not> (action = JStr ''sales_stats'' \<or> action = JStr ''purchase_stats'')"
        "action \<noteq> JStr ''run_report''"
    by blast
  then show ?thesis
  proof cases
    case rag
    have "execute_routed ev r =
        (case map_of r ''query'' of
              None \<Rightarrow> ([], Inl KeyError)
            | Some q \<Rightarrow>
                (case ask ev q of
                   (tr, Inl e) \<Rightarrow> (tr, Inl e)
                 | (tr, Inr ans) \<Rightarrow> (tr, answer_dict ''Documentation Answer'' ans)))"
      using rag unfolding execute_routed_def Let_def action_def by simp
    then show ?thesis
      using ask_trace by (auto simp: ask_def split: option.splits sum.splits)
  next
    case inv
    have "execute_routed ev r = inventory_branch ev r"
      using inv unfolding execute_routed_def Let_def action_def by simp
    then show ?thesis by (simp add: inventory_trace)
  next
    case stats
    have "execute_routed ev r = run_stats ev action r"
      using stats unfolding execute_routed_def Let_def action_def by simp
    then show ?thesis by (simp add: run_stats_trace)
  next
    case report
    have "execute_routed ev r = run_report_branch ev r"
      using report unfolding execute_routed_def Let_def action_def by simp
    then show ?thesis by (simp add: run_report_trace)
  next
    case other
    have "execute_routed ev r =
        (case ask ev (dict_get r ''query'' (JStr [])) of
              (tr, Inl e) \<Rightarrow> (tr, Inl e)
            | (tr, Inr ans) \<Rightarrow> (tr, answer_dict ''Answer'' ans))"
      using other unfolding execute_routed_def Let_def action_def by simp
    then show ?thesis
      by (auto simp: ask_def router_call_def ROUTER_CALLS_def split: sum.splits)
  qed
qed

lemma route_and_execute_trace:
  "list_all router_call (fst (route_and_execute ev q))"
proof (cases "route (today ev) q")
  case (Inl e)
  then show ?thesis by (simp add: route_and_execute_def)
next
  case (Inr r)
  obtain tr res where x: "execute_routed ev r = (tr, res)" by (cases "execute_routed ev r")
  have "list_all router_call tr" using execute_routed_trace [of ev r] x by simp
  then show ?thesis using Inr x by (simp add: route_and_execute_def split: sum.splits)
qed

lemma execute_not_router:
  "snd (execute ev c u dry tok) \<noteq> Inr (Completed None p outs sm)"
  by (auto simp: execute_def execute_plan_def split: sum.splits prod.splits if_splits)

lemma smart_execute_router_path:
  assumes "smart_execute ev c u dry tok = (tr, Inr (Completed None p outs sm))"
  shows "tr = fst (route_and_execute ev c)"
proof -
  obtain tr1 res where x: "route_and_execute ev c = (tr1, res)"
    by (cases "route_and_execute ev c")
  obtain tr2 res2 where y: "execute ev c u dry tok = (tr2, res2)"
    by (cases "execute ev c u dry tok")
  have n: "res2 \<noteq> Inr (Completed None p outs sm)"
    using execute_not_router [of ev c u dry tok p outs sm] y by simp
  show ?thesis
    using assms x y n
    by (auto simp: smart_execute_def split: sum.splits json.splits if_splits)
qed

text \<open>
  Claim C10. Every decision of \<open>route\<close> has one of the five actions \<open>rag\<close>,
  \<open>inventory_snapshot\<close>, \<open>purchase_stats\<close>, \<open>sales_stats\<close>, \<open>run_report\<close>. Whatever the
  handlers return, \<open>route_and_execute\<close> calls only the documentation lookup, the inventory
  snapshot, the purchase and sales aggregations and the report runner, never a mutating
  tool; and so does \<open>smart_execute\<close> whenever it answers from the router (the result
  without a correlation id).
\<close>

theorem router_read_only:
  "(route d q = Inr r \<longrightarrow> dict_get r ''action'' JNull \<in> set (map JStr ROUTER_ACTIONS))
   \<and> list_all router_call (fst (route_and_execute ev q))
   \<and> \<not> list_ex mutating_call (fst (route_and_execute ev q))
   \<and> (smart_execute ev q user dry_run confirm_token = (tr, Inr (Completed None p outs sm))
        \<longrightarrow> list_all router_call tr \<and> \<not> list_ex mutating_call tr)"
proof (intro conjI impI)
  assume "route d q = Inr r"
  then show "dict_get r ''action'' JNull \<in> set (map JStr ROUTER_ACTIONS)"
    by (rule route_action)
next
  show a: "list_all router_call (fst (route_and_execute ev q))"
    by (rule route_and_execute_trace)
  then show b: "\<not> list_ex mutating_call (fst (route_and_execute ev q))"
    by (auto simp: list_all_iff list_ex_iff dest: router_call_not_mutating)
  assume "smart_execute ev q user dry_run confirm_token = (tr, Inr (Completed None p outs sm))"
  then have "tr = fst (route_and_execute ev q)"
    by (rule smart_execute_router_path)
  then show "list_all router_call tr" and "\<not> list_ex mutating_call tr"
    using a b by simp_all
qed

lemma route_question_a:
  "route (today env_a) question_a
     = Inr [(''intent'', JStr ''doc_help''), (''action'', JStr ''rag''),
            (''query'', JStr question_a)]"
proof -
  have d: "is_docs_question (strip question_a)" unfolding question_a_def by code_simp
  have s: "strip question_a = question_a" unfolding question_a_def by code_simp
  show ?thesis by (simp add: route_def d [unfolded s] s)
qed

lemma smart_execute_a:
  "smart_execute env_a question_a ''admin'' False None
     = ([Call ''answer_question'' [JStr question_a] [(''top_k'', JInt 6)]],
        Inr (Completed None auto_plan [Executed 1 (JStr ''router'') answer_a] None))"
proof -
  have ex: "execute_routed env_a [(''intent'', JStr ''doc_help''), (''action'', JStr ''rag''),
            (''query'', JStr question_a)]
      = ([Call ''answer_question'' [JStr question_a] [(''top_k'', JInt 6)]],
         Inr (JObj [(''title'', JStr ''Documentation Answer''), (''columns'', JArr [JStr ''answer'']),
           (''rows'', JArr [JArr [JStr ''see the manual'']]),
           (''raw'', JObj [(''answer'', JStr ''see the manual''), (''sources'', JArr [])])]))"
    by (simp add: execute_routed_def dict_get_def ask_def env_a_def answer_dict_def py_get_def
        py_or_def)
  have re: "route_and_execute env_a question_a
      = ([Call ''answer_question'' [JStr question_a] [(''top_k'', JInt 6)]], Inr answer_a)"
    unfolding route_and_execute_def route_question_a
    by (simp add: ex annotate_def meta_of_def group_of_def dict_get_def py_get_def setdefault_def
        answer_a_def)
  show ?thesis
    unfolding smart_execute_def re by (simp add: answer_a_def dict_get_def)
qed

text \<open>The theorem at a documentation question in \<open>env_a\<close>.\<close>

theorem router_read_only_witness:
  "dict_get [(''intent'', JStr ''doc_help''), (''action'', JStr ''rag''),
             (''query'', JStr question_a)] ''action'' JNull = JStr ''rag''
   \<and> smart_execute env_a question_a ''admin'' False None
       = ([Call ''answer_question'' [JStr question_a] [(''top_k'', JInt 6)]],
          Inr (Completed None auto_plan [Executed 1 (JStr ''router'') answer_a] None))
   \<and> \<not> mutating_call (Call ''answer_question'' [JStr question_a] [(''top_k'', JInt 6)])"
  using router_read_only [of "today env_a" question_a
      "[(''intent'', JStr ''doc_help''), (''action'', JStr ''rag''), (''query'', JStr question_a)]"
      env_a "''admin''" False None
      "[Call ''answer_question'' [JStr question_a] [(''top_k'', JInt 6)]]"
      auto_plan "[Executed 1 (JStr ''router'') answer_a]" None]
    route_question_a smart_execute_a
  by (simp add: dict_get_def)

end
